theory Spec2Isabelle
  imports Main
begin

section \<open>Values, configuration and control-plane objects\<close>

text \<open>
  The mechanism driver of networking-ansible (\<^verbatim>\<open>ml2/mech_driver.py\<close>) reads Neutron
  objects and issues calls on a network runner. Python values whose type varies at run
  time (a segmentation id is an integer, \<^verbatim>\<open>None\<close>, or the default \<^verbatim>\<open>''\<close> of
  \<^verbatim>\<open>network.get(..., '')\<close>) are values of \<open>pyval\<close>; equality of two such values is
  Python's \<^verbatim>\<open>==\<close>.
\<close>

datatype pyval = PyNone | PyInt int | PyStr string

fun truthy :: "pyval \<Rightarrow> bool" where
  "truthy PyNone = False"
| "truthy (PyInt i) = (i \<noteq> 0)"
| "truthy (PyStr s) = (s \<noteq> [])"

text \<open>A value of a switch's section in the inventory: a flag or a string.\<close>

datatype cfgval = CBool bool | CStr string

fun cfg_truthy :: "cfgval \<Rightarrow> bool" where
  "cfg_truthy (CBool b) = b"
| "cfg_truthy (CStr s) = (s \<noteq> [])"

text \<open>
  A dictionary is an association list whose keys are distinct; \<open>map_of\<close> is the lookup.
  \<open>host\<close> is one entry of \<^verbatim>\<open>ml2config.inventory\<close>.
\<close>

type_synonym host = "(string \<times> cfgval) list"

type_synonym kwargs = "(string \<times> cfgval) list"

text \<open>
  The constants of \<^verbatim>\<open>networking_ansible.constants\<close> are parameters of the engine; those
  of \<^verbatim>\<open>neutron_lib.api.definitions.portbindings\<close> are the library's strings.
\<close>

definition VNIC_BAREMETAL :: string where "VNIC_BAREMETAL = ''baremetal''"
definition VNIC_DIRECT :: string where "VNIC_DIRECT = ''direct''"
definition VIF_TYPE_OTHER :: string where "VIF_TYPE_OTHER = ''other''"
definition VIF_TYPE_OVS :: string where "VIF_TYPE_OVS = ''ovs''"

record engine =
  COMPUTE_NOVA :: string
  SUPPORTED_TYPES :: "string list"
  EXTRA_PARAMS :: "string list"
  CUSTOM_PARAM_PREFIX :: string
  inventory :: "(string \<times> host) list"
  mac_map :: "(string \<times> string) list"
  port_mappings :: "(string \<times> (string \<times> string) list) list"

text \<open>One element of \<^verbatim>\<open>local_link_information\<close>; an absent key is \<open>None\<close>.\<close>

record link_info =
  switch_id :: "string option"
  switch_info :: "string option"
  lli_port_id :: "string option"

text \<open>
  A binding profile: the keys the driver reads. \<open>local_link_information\<close> is \<open>None\<close>
  when the key is absent or holds \<^verbatim>\<open>None\<close>.
\<close>

record profile =
  local_link_information :: "link_info list option"
  pci_slot :: "string option"

record binding =
  binding_host :: string
  binding_prof :: profile

text \<open>
  A port, as the dictionary of a port context or as a \<^verbatim>\<open>Port\<close> object of the store:
  \<open>is_Port\<close> is \<^verbatim>\<open>isinstance(port, Port)\<close>. Subscripts and attributes of the same name
  are one field.
\<close>

record port =
  is_Port :: bool
  port_id :: string
  mac_address :: string
  network_id :: string
  device_owner :: string
  host_id :: string
  vnic_type :: string
  vif_type :: string
  binding_profile :: profile
  bindings :: "binding list"

record segment =
  segmentation_id :: pyval
  physical_network :: pyval
  network_type :: string

text \<open>
  A network: the provider attributes of the dictionary of a network context
  (\<open>provider_segmentation_id\<close> is \<open>None\<close> when the key is absent) and the segments of the
  stored object.
\<close>

record network =
  net_id :: string
  provider_network_type :: string
  provider_segmentation_id :: "pyval option"
  provider_physical_network :: pyval
  segments :: "segment list"

record sub_port =
  sp_segmentation_id :: pyval

record trunk =
  trunk_port_id :: string
  sub_ports :: "sub_port list"

text \<open>
  The control-plane store, as one consistent read sees it. Its ports are \<^verbatim>\<open>Port\<close>
  objects: \<open>is_Port\<close> holds of them.
\<close>

record db =
  db_ports :: "port list"
  db_networks :: "network list"
  db_segments :: "segment list"
  db_trunks :: "trunk list"

definition Port_get_object :: "db \<Rightarrow> string \<Rightarrow> port option" where
  "Port_get_object d i = find (\<lambda>p. port_id p = i) (db_ports d)"

definition Network_get_object :: "db \<Rightarrow> string \<Rightarrow> network option" where
  "Network_get_object d i = find (\<lambda>n. net_id n = i) (db_networks d)"

definition Trunk_get_object :: "db \<Rightarrow> string \<Rightarrow> trunk option" where
  "Trunk_get_object d i = find (\<lambda>t. trunk_port_id t = i) (db_trunks d)"

definition NetworkSegment_get_objects :: "db \<Rightarrow> pyval \<Rightarrow> segment list" where
  "NetworkSegment_get_objects d sid = filter (\<lambda>s. segmentation_id s = sid) (db_segments d)"

definition Port_get_objects_by_mac :: "db \<Rightarrow> string \<Rightarrow> port list" where
  "Port_get_objects_by_mac d mac = filter (\<lambda>p. mac_address p = mac) (db_ports d)"

definition Port_get_objects_by_network :: "db \<Rightarrow> string \<Rightarrow> string \<Rightarrow> port list" where
  "Port_get_objects_by_network d nid owner =
     filter (\<lambda>p. network_id p = nid \<and> device_owner p = owner) (db_ports d)"

section \<open>The device gateway\<close>

text \<open>
  A call on the network runner with its arguments, the keyword arguments of the switch
  last. The switch port of the two delete calls is passed on unchecked and may be
  \<^verbatim>\<open>None\<close>. Whether a call raises is the gateway's matter: a gateway is a predicate
  that holds of the calls that raise.
\<close>

datatype device_call =
    Create_vlan string pyval kwargs
  | Delete_vlan string pyval kwargs
  | Conf_access_port string string pyval kwargs
  | Conf_trunk_port string string pyval "pyval list" kwargs
  | Add_trunk_vlan string string pyval kwargs
  | Delete_trunk_vlan string "string option" pyval kwargs
  | Delete_port string "string option" kwargs

type_synonym gateway = "device_call \<Rightarrow> bool"

datatype mde_reason = NullPort | MissingSwitchOrPort | SwitchNotInInventory | NetworkNotFound

datatype error =
    MechanismDriverError mde_reason
  | NetworkingAnsibleMechException
  | LocalLinkInfoMissingException
  | RunnerError
  | AttributeError
  | IndexError
  | KeyError
  | TypeError

text \<open>The outcome of a handler: the device calls it issued, in order, and how it ended.\<close>

type_synonym 'a outcome = "device_call list \<times> (error + 'a)"

section \<open>Initialisation: inventory and keyword arguments\<close>

definition startswith :: "string \<Rightarrow> string \<Rightarrow> bool" where
  "startswith s pre = (take (length pre) s = pre)"

definition dict_set :: "'k \<Rightarrow> 'v \<Rightarrow> ('k \<times> 'v) list \<Rightarrow> ('k \<times> 'v) list" where
  "dict_set k v d = (if k \<in> fst ` set d then map (\<lambda>(a, b). if a = k then (a, v) else (a, b)) d
                     else d @ [(k, v)])"

fun host_kwargs :: "engine \<Rightarrow> host \<Rightarrow> kwargs \<Rightarrow> kwargs" where
  "host_kwargs eng [] acc = acc"
| "host_kwargs eng ((key, val) # items) acc =
     (if key \<in> set (EXTRA_PARAMS eng) \<or> startswith key (CUSTOM_PARAM_PREFIX eng)
      then host_kwargs eng items
             (dict_set (if startswith key (CUSTOM_PARAM_PREFIX eng)
                        then drop (length (CUSTOM_PARAM_PREFIX eng)) key else key) val acc)
      else host_kwargs eng items acc)"

definition kwargs_of :: "engine \<Rightarrow> string \<Rightarrow> kwargs option" where
  "kwargs_of eng host_name =
     map_option (\<lambda>h. host_kwargs eng h []) (map_of (inventory eng) host_name)"

definition has_host :: "engine \<Rightarrow> string \<Rightarrow> bool" where
  "has_host eng name = (name \<in> fst ` set (inventory eng))"

section \<open>Port classification\<close>

definition is_port_supported :: "engine \<Rightarrow> port \<Rightarrow> bool" where
  "is_port_supported eng p = (vnic_type p \<in> set (SUPPORTED_TYPES eng))"

definition is_port_baremetal :: "port \<Rightarrow> bool" where
  "is_port_baremetal p = (vnic_type p = VNIC_BAREMETAL)"

definition is_port_normal :: "engine \<Rightarrow> port \<Rightarrow> bool" where
  "is_port_normal eng p = (device_owner p = COMPUTE_NOVA eng)"

definition is_port_direct :: "port \<Rightarrow> bool" where
  "is_port_direct p = (vnic_type p = VNIC_DIRECT)"

text \<open>\<^verbatim>\<open>_is_port_bound\<close>: a bare-metal port is bound with VIF type \<^verbatim>\<open>other\<close>, a compute
  port with \<^verbatim>\<open>ovs\<close>.\<close>

definition is_port_bound :: "engine \<Rightarrow> port \<Rightarrow> bool" where
  "is_port_bound eng p =
     (if \<not> is_port_supported eng p then False
      else if is_port_baremetal p then vif_type p = VIF_TYPE_OTHER
      else if is_port_normal eng p then vif_type p = VIF_TYPE_OVS
      else False)"

text \<open>
  \<^verbatim>\<open>_get_port_lli\<close>: \<^verbatim>\<open>None\<close> for no port; the profile of the first binding of a
  \<^verbatim>\<open>Port\<close> object (\<^verbatim>\<open>bindings[0]\<close> raises on an empty list); the binding profile of a
  supported port dictionary.
\<close>

definition get_port_lli :: "engine \<Rightarrow> port option \<Rightarrow> error + link_info list option" where
  "get_port_lli eng po =
     (case po of
        None \<Rightarrow> Inr None
      | Some p \<Rightarrow>
          if is_Port p then
            (case bindings p of
               [] \<Rightarrow> Inl IndexError
             | b # _ \<Rightarrow> Inr (local_link_information (binding_prof b)))
          else if \<not> is_port_supported eng p then Inr None
          else Inr (local_link_information (binding_profile p)))"

section \<open>Topology resolution\<close>

text \<open>\<^verbatim>\<open>str.upper\<close> on the ASCII letters, which is what a MAC address holds.\<close>

definition upper_char :: "char \<Rightarrow> char" where
  "upper_char c =
     (case map_of (zip ''abcdefghijklmnopqrstuvwxyz'' ''ABCDEFGHIJKLMNOPQRSTUVWXYZ'') c of
        None \<Rightarrow> c
      | Some u \<Rightarrow> u)"

definition upper :: "string \<Rightarrow> string" where
  "upper s = map upper_char s"

text \<open>\<^verbatim>\<open>s.replace(old, '')\<close>: every occurrence of \<open>old\<close>, left to right, is dropped.\<close>

fun replace_del :: "string \<Rightarrow> string \<Rightarrow> string" where
  "replace_del old [] = []"
| "replace_del old (c # cs) =
     (if old \<noteq> [] \<and> take (length old) (c # cs) = old
      then replace_del old (drop (length old) (c # cs))
      else c # replace_del old cs)"

text \<open>
  \<^verbatim>\<open>_build_sriov_host_id\<close>: the part of the PCI address before the first dot, without
  \<^verbatim>\<open>0000:\<close> and without colons, appended to the host id. A profile without
  \<^verbatim>\<open>pci_slot\<close> makes \<^verbatim>\<open>None.split\<close> raise.
\<close>

definition normalize_pci :: "string \<Rightarrow> string" where
  "normalize_pci s =
     filter (\<lambda>c. c \<noteq> CHR '':'') (replace_del ''0000:'' (takeWhile (\<lambda>c. c \<noteq> CHR ''.'') s))"

definition build_sriov_host_id :: "port \<Rightarrow> string \<Rightarrow> error + string" where
  "build_sriov_host_id p hid =
     (case pci_slot (binding_profile p) of
        None \<Rightarrow> Inl AttributeError
      | Some s \<Rightarrow> Inr (hid @ ''-'' @ normalize_pci s))"

type_synonym mapping = "string option \<times> string option"

text \<open>\<^verbatim>\<open>network.get(provider_net.SEGMENTATION_ID, '')\<close> after \<^verbatim>\<open>network = network or {}\<close>.\<close>

definition network_segmentation_id :: "network option \<Rightarrow> pyval" where
  "network_segmentation_id no =
     (case no of
        None \<Rightarrow> PyStr ''''
      | Some n \<Rightarrow> (case provider_segmentation_id n of None \<Rightarrow> PyStr '''' | Some v \<Rightarrow> v))"

definition switch_meta_from_link_info ::
  "engine \<Rightarrow> port \<Rightarrow> network option \<Rightarrow> error + (mapping list option \<times> pyval)" where
  "switch_meta_from_link_info eng p no =
     (case get_port_lli eng (Some p) of
        Inl e \<Rightarrow> Inl e
      | Inr None \<Rightarrow> Inl LocalLinkInfoMissingException
      | Inr (Some []) \<Rightarrow> Inl LocalLinkInfoMissingException
      | Inr (Some (l # _)) \<Rightarrow>
          (let switch_mac = upper (case switch_id l of None \<Rightarrow> '''' | Some m \<Rightarrow> m);
               switch_name = switch_info l;
               switch_port = lli_port_id l;
               switch_name' =
                 (if (switch_name = None \<or> switch_name = Some '''')
                     \<and> switch_mac \<in> fst ` set (mac_map eng)
                  then map_of (mac_map eng) switch_mac else switch_name)
           in Inr (Some [(switch_name', switch_port)], network_segmentation_id no)))"

definition switch_meta_from_port_host_id ::
  "engine \<Rightarrow> port \<Rightarrow> network option \<Rightarrow> error + (mapping list option \<times> pyval)" where
  "switch_meta_from_port_host_id eng p no =
     (case (if is_port_direct p then build_sriov_host_id p (host_id p) else Inr (host_id p)) of
        Inl e \<Rightarrow> Inl e
      | Inr key \<Rightarrow>
          (let mappings = (case map_of (port_mappings eng) key of
                             None \<Rightarrow> []
                           | Some ms \<Rightarrow> map (\<lambda>(sw, sp). (Some sw, Some sp)) ms)
           in Inr (Some mappings, network_segmentation_id no)))"

text \<open>
  \<^verbatim>\<open>get_switch_meta\<close> starts with \<^verbatim>\<open>_is_port_baremetal(port)\<close>, which reads
  \<^verbatim>\<open>port['binding:vnic_type']\<close>. That is a key of a port dictionary; a \<^verbatim>\<open>Port\<close>
  object of the store has its binding attributes under \<^verbatim>\<open>port.bindings\<close> and no
  attribute of that name, so the subscript raises \<^verbatim>\<open>AttributeError\<close>.
\<close>

definition get_switch_meta ::
  "engine \<Rightarrow> port \<Rightarrow> network option \<Rightarrow> error + (mapping list option \<times> pyval)" where
  "get_switch_meta eng p no =
     (if is_Port p then Inl AttributeError
      else if is_port_baremetal p then switch_meta_from_link_info eng p no
      else if is_port_normal eng p then switch_meta_from_port_host_id eng p no
      else Inr (None, PyNone))"

section \<open>Setting the state of a switch port\<close>

definition lli_present :: "link_info list option \<Rightarrow> bool" where
  "lli_present l = (case l of Some (_ # _) \<Rightarrow> True | _ \<Rightarrow> False)"

text \<open>
  The try block of \<^verbatim>\<open>_set_port_state\<close>: one call, chosen by the trunk and the owner of
  the port. Every exception in it, the \<^verbatim>\<open>KeyError\<close> of \<^verbatim>\<open>self.kwargs[switch_name]\<close>
  included, is raised again as \<^verbatim>\<open>NetworkingAnsibleMechException\<close>.
\<close>

definition plug_call ::
  "engine \<Rightarrow> port \<Rightarrow> trunk option \<Rightarrow> string \<Rightarrow> string \<Rightarrow> pyval \<Rightarrow> kwargs \<Rightarrow> device_call" where
  "plug_call eng p t sw sp segid kw =
     (case t of
        Some tr \<Rightarrow> Conf_trunk_port sw sp segid (map sp_segmentation_id (sub_ports tr)) kw
      | None \<Rightarrow>
          if is_port_normal eng p then Add_trunk_vlan sw sp segid kw
          else Conf_access_port sw sp segid kw)"

definition assign_port ::
  "engine \<Rightarrow> gateway \<Rightarrow> port \<Rightarrow> trunk option \<Rightarrow> string \<Rightarrow> string \<Rightarrow> pyval \<Rightarrow> bool outcome" where
  "assign_port eng gw p t sw sp segid =
     (case kwargs_of eng sw of
        None \<Rightarrow> ([], Inl NetworkingAnsibleMechException)
      | Some kw \<Rightarrow>
          (let c = plug_call eng p t sw sp segid kw
           in if gw c then ([c], Inl NetworkingAnsibleMechException) else ([c], Inr True)))"

text \<open>
  \<^verbatim>\<open>_set_port_state\<close>. The message of the error for a missing network reads
  \<^verbatim>\<open>port.id\<close>: an attribute of a \<^verbatim>\<open>Port\<close> object, an \<^verbatim>\<open>AttributeError\<close> on a
  dictionary.
\<close>

definition set_port_state ::
  "engine \<Rightarrow> gateway \<Rightarrow> db \<Rightarrow> port option \<Rightarrow> string option \<Rightarrow> string option \<Rightarrow> bool outcome" where
  "set_port_state eng gw d po switch_name switch_port =
     (case po of
        None \<Rightarrow> ([], Inl (MechanismDriverError NullPort))
      | Some p \<Rightarrow>
          (case (switch_name, switch_port) of
             (Some sw, Some sp) \<Rightarrow>
               if sw = [] \<or> sp = [] then ([], Inl (MechanismDriverError MissingSwitchOrPort))
               else if \<not> has_host eng sw then ([], Inl (MechanismDriverError SwitchNotInInventory))
               else
                 (case Network_get_object d (network_id p) of
                    None \<Rightarrow>
                      if is_Port p then ([], Inl (MechanismDriverError NetworkNotFound))
                      else ([], Inl AttributeError)
                  | Some net \<Rightarrow>
                      (let t = Trunk_get_object d (port_id p)
                       in case segments net of
                            [] \<Rightarrow> ([], Inl IndexError)
                          | s0 # _ \<Rightarrow> assign_port eng gw p t sw sp (segmentation_id s0)))
           | _ \<Rightarrow> ([], Inl (MechanismDriverError MissingSwitchOrPort))))"

section \<open>Ensuring a port\<close>

text \<open>\<^verbatim>\<open>_delete_switch_port\<close>: the gateway's exception is wrapped.\<close>

definition delete_switch_port ::
  "engine \<Rightarrow> gateway \<Rightarrow> string \<Rightarrow> string option \<Rightarrow> unit outcome" where
  "delete_switch_port eng gw sw switch_port =
     (case kwargs_of eng sw of
        None \<Rightarrow> ([], Inl NetworkingAnsibleMechException)
      | Some kw \<Rightarrow>
          (let c = Delete_port sw switch_port kw
           in if gw c then ([c], Inl NetworkingAnsibleMechException) else ([c], Inr ())))"

text \<open>
  \<^verbatim>\<open>_is_deleted_port_in_use\<close>: some port with this MAC address has a binding and link
  information, and its network has a VLAN segment on the physical network.
\<close>

fun deleted_port_in_use_loop :: "engine \<Rightarrow> db \<Rightarrow> pyval \<Rightarrow> port list \<Rightarrow> error + bool" where
  "deleted_port_in_use_loop eng d physnet [] = Inr False"
| "deleted_port_in_use_loop eng d physnet (p # ps) =
     (if bindings p \<noteq> [] then
        (case get_port_lli eng (Some p) of
           Inl e \<Rightarrow> Inl e
         | Inr lli \<Rightarrow>
             if lli_present lli then
               (case Network_get_object d (network_id p) of
                  None \<Rightarrow> deleted_port_in_use_loop eng d physnet ps
                | Some net \<Rightarrow>
                    if list_ex (\<lambda>seg. physical_network seg = physnet \<and> network_type seg = ''vlan'')
                         (segments net)
                    then Inr True
                    else deleted_port_in_use_loop eng d physnet ps)
             else deleted_port_in_use_loop eng d physnet ps)
      else deleted_port_in_use_loop eng d physnet ps)"

definition is_deleted_port_in_use :: "engine \<Rightarrow> db \<Rightarrow> pyval \<Rightarrow> string \<Rightarrow> error + bool" where
  "is_deleted_port_in_use eng d physnet mac =
     deleted_port_in_use_loop eng d physnet (Port_get_objects_by_mac d mac)"

text \<open>
  \<^verbatim>\<open>active_port_filter\<close>, the loop over the bindings of a port of the store. For a direct
  port being deleted it calls \<^verbatim>\<open>get_switch_meta\<close> on the port of the store, a
  \<^verbatim>\<open>Port\<close> object, for which that call raises; the lines after it read the first mapping
  (\<^verbatim>\<open>mappings[0][1]\<close>). Otherwise it compares the host of the binding.
\<close>

fun active_port_filter_loop ::
  "engine \<Rightarrow> db \<Rightarrow> port \<Rightarrow> string option \<Rightarrow> pyval \<Rightarrow> port \<Rightarrow> binding list \<Rightarrow> error + bool" where
  "active_port_filter_loop eng d p switch_port segid db_port [] = Inr False"
| "active_port_filter_loop eng d p switch_port segid db_port (b # bs) =
     (if is_port_direct p then
        (case build_sriov_host_id p (host_id p) of
           Inl e \<Rightarrow> Inl e
         | Inr hid \<Rightarrow>
             (case get_switch_meta eng db_port (Network_get_object d (network_id db_port)) of
                Inl e \<Rightarrow> Inl e
              | Inr (None, db_segid) \<Rightarrow> Inl TypeError
              | Inr (Some [], db_segid) \<Rightarrow> Inl IndexError
              | Inr (Some ((sw, db_switchport) # ms), db_segid) \<Rightarrow>
                  if db_switchport = switch_port \<and> db_segid = segid
                     \<and> port_id db_port \<noteq> port_id p
                  then Inr True
                  else active_port_filter_loop eng d p switch_port segid db_port bs))
      else if binding_host b = host_id p \<and> port_id db_port \<noteq> port_id p then Inr True
      else active_port_filter_loop eng d p switch_port segid db_port bs)"

definition active_port_filter ::
  "engine \<Rightarrow> db \<Rightarrow> port \<Rightarrow> string option \<Rightarrow> pyval \<Rightarrow> port \<Rightarrow> error + bool" where
  "active_port_filter eng d p switch_port segid db_port =
     active_port_filter_loop eng d p switch_port segid db_port (bindings db_port)"

text \<open>\<^verbatim>\<open>list(filter(f, xs))\<close> for a predicate that may raise.\<close>

fun filter_raising :: "('a \<Rightarrow> error + bool) \<Rightarrow> 'a list \<Rightarrow> error + 'a list" where
  "filter_raising f [] = Inr []"
| "filter_raising f (x # xs) =
     (case f x of
        Inl e \<Rightarrow> Inl e
      | Inr keep \<Rightarrow>
          (case filter_raising f xs of
             Inl e \<Rightarrow> Inl e
           | Inr ys \<Rightarrow> Inr (if keep then x # ys else ys)))"

text \<open>
  \<^verbatim>\<open>ensure_port\<close>. \<open>port_context\<close> is \<^verbatim>\<open>port_context.segments_to_bind\<close>, the ids of
  the segments, \<open>None\<close> without a context; the value returned is the segment given to
  \<^verbatim>\<open>set_binding\<close>, if any. The call that removes a VLAN from a trunk is outside any
  try block: the runner's exception leaves as it is.
\<close>

definition ensure_port ::
  "engine \<Rightarrow> gateway \<Rightarrow> db \<Rightarrow> port \<Rightarrow> string option \<Rightarrow> string option \<Rightarrow> pyval
     \<Rightarrow> string list option \<Rightarrow> pyval \<Rightarrow> bool \<Rightarrow> string option outcome" where
  "ensure_port eng gw d p switch_name switch_port physnet port_context segid delete =
     (case switch_name of
        None \<Rightarrow> ([], Inl (MechanismDriverError SwitchNotInInventory))
      | Some sw \<Rightarrow>
          if \<not> has_host eng sw then ([], Inl (MechanismDriverError SwitchNotInInventory))
          else
            (let updated_port = Port_get_object d (port_id p)
             in if is_port_normal eng p then
                  (if delete then
                     (case filter_raising (active_port_filter eng d p switch_port segid)
                             (Port_get_objects_by_network d (network_id p) (COMPUTE_NOVA eng)) of
                        Inl e \<Rightarrow> ([], Inl e)
                      | Inr active_ports \<Rightarrow>
                          if active_ports = [] then
                            (case kwargs_of eng sw of
                               None \<Rightarrow> ([], Inl KeyError)
                             | Some kw \<Rightarrow>
                                 (let c = Delete_trunk_vlan sw switch_port segid kw
                                  in if gw c then ([c], Inl RunnerError) else ([c], Inr None)))
                          else ([], Inr None))
                   else
                     (case set_port_state eng gw d (Some p) switch_name switch_port of
                        (cs, Inl e) \<Rightarrow> (cs, Inl e)
                      | (cs, Inr ok) \<Rightarrow> (cs, Inr None)))
                else
                  (case get_port_lli eng updated_port of
                     Inl e \<Rightarrow> ([], Inl e)
                   | Inr lli \<Rightarrow>
                       if lli_present lli then
                         (case set_port_state eng gw d updated_port switch_name switch_port of
                            (cs, Inl e) \<Rightarrow> (cs, Inl e)
                          | (cs, Inr ok) \<Rightarrow>
                              (cs, Inr (if ok then
                                          (case port_context of
                                             Some (s # _) \<Rightarrow> Some s
                                           | _ \<Rightarrow> None)
                                        else None)))
                       else
                         (case is_deleted_port_in_use eng d physnet (mac_address p) of
                            Inl e \<Rightarrow> ([], Inl e)
                          | Inr in_use \<Rightarrow>
                              if in_use then ([], Inr None)
                              else
                                (case delete_switch_port eng gw sw switch_port of
                                   (cs, Inl e) \<Rightarrow> (cs, Inl e)
                                 | (cs, Inr u) \<Rightarrow> (cs, Inr None))))))"

section \<open>Network life cycle\<close>

text \<open>\<^verbatim>\<open>host.get('manage_vlans', True)\<close>, as a condition.\<close>

definition manage_vlans :: "host \<Rightarrow> bool" where
  "manage_vlans h = (case map_of h ''manage_vlans'' of None \<Rightarrow> True | Some v \<Rightarrow> cfg_truthy v)"

text \<open>
  The handlers visit the switches of the inventory in order, each under its lock. The
  store is read again under every lock and may have changed in between: \<open>db_at name\<close>
  is the store as it is read while the lock of switch \<open>name\<close> is held. A \<^verbatim>\<open>return\<close>
  inside the loop ends the handler.
\<close>

fun create_network_loop ::
  "engine \<Rightarrow> gateway \<Rightarrow> (string \<Rightarrow> db) \<Rightarrow> network \<Rightarrow> (string \<times> host) list \<Rightarrow> unit outcome" where
  "create_network_loop eng gw db_at network [] = ([], Inr ())"
| "create_network_loop eng gw db_at network ((host_name, h) # rest) =
     (if manage_vlans h then
        (case provider_segmentation_id network of
           None \<Rightarrow> ([], Inl KeyError)
         | Some segid \<Rightarrow>
             if provider_network_type network = ''vlan'' \<and> truthy segid then
               (case Network_get_object (db_at host_name) (net_id network) of
                  None \<Rightarrow> ([], Inr ())
                | Some net \<Rightarrow>
                    if segid \<notin> set (map segmentation_id (segments net)) then ([], Inr ())
                    else
                      (case kwargs_of eng host_name of
                         None \<Rightarrow> ([], Inl NetworkingAnsibleMechException)
                       | Some kw \<Rightarrow>
                           (let c = Create_vlan host_name segid kw
                            in if gw c then ([c], Inl NetworkingAnsibleMechException)
                               else (case create_network_loop eng gw db_at network rest of
                                       (cs, r) \<Rightarrow> (c # cs, r)))))
             else create_network_loop eng gw db_at network rest)
      else create_network_loop eng gw db_at network rest)"

definition create_network_postcommit ::
  "engine \<Rightarrow> gateway \<Rightarrow> (string \<Rightarrow> db) \<Rightarrow> network \<Rightarrow> unit outcome" where
  "create_network_postcommit eng gw db_at network =
     create_network_loop eng gw db_at network (inventory eng)"

definition segment_matches :: "pyval \<Rightarrow> pyval \<Rightarrow> segment \<Rightarrow> bool" where
  "segment_matches segid physnet s =
     (segmentation_id s = segid \<and> physical_network s = physnet \<and> network_type s = ''vlan'')"

fun delete_network_loop ::
  "engine \<Rightarrow> gateway \<Rightarrow> (string \<Rightarrow> db) \<Rightarrow> network \<Rightarrow> (string \<times> host) list \<Rightarrow> unit outcome" where
  "delete_network_loop eng gw db_at network [] = ([], Inr ())"
| "delete_network_loop eng gw db_at network ((host_name, h) # rest) =
     (case provider_segmentation_id network of
        None \<Rightarrow> ([], Inl KeyError)
      | Some segid \<Rightarrow>
          if provider_network_type network = ''vlan'' \<and> truthy segid then
            (if manage_vlans h then
               (if list_ex (segment_matches segid (provider_physical_network network))
                     (NetworkSegment_get_objects (db_at host_name) segid)
                then ([], Inr ())
                else
                  (case kwargs_of eng host_name of
                     None \<Rightarrow> ([], Inl NetworkingAnsibleMechException)
                   | Some kw \<Rightarrow>
                       (let c = Delete_vlan host_name segid kw
                        in if gw c then ([c], Inl NetworkingAnsibleMechException)
                           else (case delete_network_loop eng gw db_at network rest of
                                   (cs, r) \<Rightarrow> (c # cs, r)))))
             else delete_network_loop eng gw db_at network rest)
          else delete_network_loop eng gw db_at network rest)"

definition delete_network_postcommit ::
  "engine \<Rightarrow> gateway \<Rightarrow> (string \<Rightarrow> db) \<Rightarrow> network \<Rightarrow> unit outcome" where
  "delete_network_postcommit eng gw db_at network =
     delete_network_loop eng gw db_at network (inventory eng)"

section \<open>Example configuration\<close>

text \<open>
  Two switches, the second with VLAN management switched off; two compute hosts on the
  same switch port, and a passthrough function of the first host on a port of its own.
\<close>

definition example_engine :: engine where
  "example_engine =
     \<lparr>COMPUTE_NOVA = ''compute:nova'',
      SUPPORTED_TYPES = [''baremetal'', ''normal'', ''direct''],
      EXTRA_PARAMS = [''stp_edge''],
      CUSTOM_PARAM_PREFIX = ''cp_'',
      inventory =
        [(''sw1'', [(''ansible_network_os'', CStr ''junos''), (''cp_trunk_mode'', CStr ''tagged'')]),
         (''sw2'', [(''manage_vlans'', CBool False), (''stp_edge'', CBool True)])],
      mac_map = [(''AA:BB:CC:00:11:22'', ''sw2'')],
      port_mappings =
        [(''compute-1'', [(''sw1'', ''Eth1/1'')]),
         (''compute-2'', [(''sw1'', ''Eth1/1'')]),
         (''compute-1-0300'', [(''sw1'', ''Eth1/7'')])]\<rparr>"

definition no_profile :: profile where
  "no_profile = \<lparr>local_link_information = None, pci_slot = None\<rparr>"

definition example_link :: link_info where
  "example_link =
     \<lparr>switch_id = Some ''aa:bb:cc:00:11:22'', switch_info = None, lli_port_id = Some ''Eth1/3''\<rparr>"

definition baremetal_port :: "profile \<Rightarrow> port" where
  "baremetal_port pr =
     \<lparr>is_Port = False, port_id = ''bm-1'', mac_address = ''52:54:00:00:00:01'',
      network_id = ''net1'', device_owner = ''baremetal:none'', host_id = ''ironic-node-1'',
      vnic_type = ''baremetal'', vif_type = ''other'', binding_profile = pr, bindings = []\<rparr>"

definition vm_port :: "string \<Rightarrow> string \<Rightarrow> string \<Rightarrow> profile \<Rightarrow> port" where
  "vm_port i h vt pr =
     \<lparr>is_Port = False, port_id = i, mac_address = ''fa:16:3e:00:00:01'',
      network_id = ''net1'', device_owner = ''compute:nova'', host_id = h,
      vnic_type = vt, vif_type = ''ovs'', binding_profile = pr,
      bindings = [\<lparr>binding_host = h, binding_prof = pr\<rparr>]\<rparr>"

definition pci_profile :: "string \<Rightarrow> profile" where
  "pci_profile s = \<lparr>local_link_information = None, pci_slot = Some s\<rparr>"

definition example_network :: network where
  "example_network =
     \<lparr>net_id = ''net1'', provider_network_type = ''vlan'',
      provider_segmentation_id = Some (PyInt 100),
      provider_physical_network = PyStr ''physnet1'',
      segments = [\<lparr>segmentation_id = PyInt 100, physical_network = PyStr ''physnet1'',
                   network_type = ''vlan''\<rparr>]\<rparr>"

definition example_db :: "port list \<Rightarrow> trunk list \<Rightarrow> db" where
  "example_db ps ts =
     \<lparr>db_ports = ps, db_networks = [example_network],
      db_segments = [\<lparr>segmentation_id = PyInt 100, physical_network = PyStr ''physnet1'',
                      network_type = ''vlan''\<rparr>],
      db_trunks = ts\<rparr>"

definition empty_db :: db where
  "empty_db = \<lparr>db_ports = [], db_networks = [], db_segments = [], db_trunks = []\<rparr>"

definition example_trunk :: trunk where
  "example_trunk =
     \<lparr>trunk_port_id = ''bm-1'',
      sub_ports = [\<lparr>sp_segmentation_id = PyInt 60\<rparr>, \<lparr>sp_segmentation_id = PyInt 70\<rparr>]\<rparr>"

definition never_fails :: gateway where
  "never_fails c = False"

definition always_fails :: gateway where
  "always_fails c = True"

definition stale_db :: db where
  "stale_db =
     \<lparr>db_ports = [],
      db_networks = [example_network\<lparr>segments :=
         [\<lparr>segmentation_id = PyInt 200, physical_network = PyStr ''physnet1'',
           network_type = ''vlan''\<rparr>]\<rparr>],
      db_segments = [\<lparr>segmentation_id = PyInt 200, physical_network = PyStr ''physnet1'',
                      network_type = ''vlan''\<rparr>],
      db_trunks = []\<rparr>"

definition stored :: "port \<Rightarrow> port" where
  "stored p = p\<lparr>is_Port := True\<rparr>"

definition reusing_port :: port where
  "reusing_port =
     \<lparr>is_Port = True, port_id = ''bm-2'', mac_address = ''52:54:00:00:00:01'',
      network_id = ''net1'', device_owner = ''baremetal:none'', host_id = ''ironic-node-2'',
      vnic_type = ''baremetal'', vif_type = ''other'', binding_profile = no_profile,
      bindings = [\<lparr>binding_host = ''ironic-node-2'',
                   binding_prof = \<lparr>local_link_information = Some [example_link],
                                   pci_slot = None\<rparr>\<rparr>]\<rparr>"

text \<open>
  The ports that C1 names, in the words of the specification: another port owned by a
  compute instance on the same network, with a different id, whose effective binding
  location (the host id, with the device-address suffix for a passthrough port) maps to
  the same switch port and segmentation id.
\<close>

definition spec_shares_location ::
  "engine \<Rightarrow> db \<Rightarrow> port \<Rightarrow> string option \<Rightarrow> pyval \<Rightarrow> port \<Rightarrow> bool" where
  "spec_shares_location eng d p switch_port segid q =
     (device_owner q = COMPUTE_NOVA eng \<and> network_id q = network_id p
      \<and> port_id q \<noteq> port_id p
      \<and> (case switch_meta_from_port_host_id eng q (Network_get_object d (network_id q)) of
            Inr (Some ms, sid) \<Rightarrow> list_ex (\<lambda>m. snd m = switch_port) ms \<and> sid = segid
          | _ \<Rightarrow> False))"

section \<open>Dictionaries and keyword arguments\<close>

lemma in_keys_iff: "k \<in> fst ` set xs \<longleftrightarrow> map_of xs k \<noteq> None"
  by (simp add: map_of_eq_None_iff)

lemma has_host_kwargs: "has_host eng name \<Longrightarrow> \<exists>kw. kwargs_of eng name = Some kw"
proof -
  assume "has_host eng name"
  then have "map_of (inventory eng) name \<noteq> None"
    by (simp add: has_host_def map_of_eq_None_iff)
  then show ?thesis by (auto simp: kwargs_of_def)
qed

section \<open>Topology resolution of bare-metal ports\<close>

text \<open>
  C7. For a bare-metal port (a port dictionary, or a stored port with a first binding)
  with binding profile \<open>pr\<close>: without link information in \<open>pr\<close>, whatever the other
  fields hold, \<^verbatim>\<open>_switch_meta_from_link_info\<close> raises
  \<^verbatim>\<open>LocalLinkInfoMissingException\<close>; with link information it returns exactly one
  mapping, whose switch port is the \<^verbatim>\<open>port_id\<close> of the first link as it is, and whose
  switch name is \<^verbatim>\<open>switch_info\<close> when that is set and not empty, and otherwise the
  entry of the MAC table for the upper-cased \<^verbatim>\<open>switch_id\<close> (when there is none, the
  name stays what \<^verbatim>\<open>switch_info\<close> was).
\<close>

theorem switch_meta_from_link_info_resolves:
  assumes "is_port_baremetal p" and "VNIC_BAREMETAL \<in> set (SUPPORTED_TYPES eng)"
    and "if is_Port p then \<exists>bs. bindings p = \<lparr>binding_host = bh, binding_prof = pr\<rparr> # bs
         else binding_profile p = pr"
  shows "(\<not> lli_present (local_link_information pr) \<longrightarrow>
            switch_meta_from_link_info eng p no = Inl LocalLinkInfoMissingException)
       \<and> (\<forall>l ls. local_link_information pr = Some (l # ls) \<longrightarrow>
            (\<exists>name. switch_meta_from_link_info eng p no
                       = Inr (Some [(name, lli_port_id l)], network_segmentation_id no)
                 \<and> (\<forall>n. switch_info l = Some n \<and> n \<noteq> [] \<longrightarrow> name = Some n)
                 \<and> (\<forall>m. (switch_info l = None \<or> switch_info l = Some [])
                         \<and> map_of (mac_map eng)
                              (upper (case switch_id l of None \<Rightarrow> [] | Some a \<Rightarrow> a)) = Some m
                       \<longrightarrow> name = Some m)
                 \<and> ((switch_info l = None \<or> switch_info l = Some [])
                         \<and> map_of (mac_map eng)
                              (upper (case switch_id l of None \<Rightarrow> [] | Some a \<Rightarrow> a)) = None
                       \<longrightarrow> name = switch_info l)))"
proof -
  have sup: "\<not> is_Port p \<Longrightarrow> is_port_supported eng p"
    using assms(1,2) by (simp add: is_port_supported_def is_port_baremetal_def)
  have lli: "get_port_lli eng (Some p) = Inr (local_link_information pr)"
    using assms(3) sup by (auto simp: get_port_lli_def split: list.splits)
  have absent: "\<not> lli_present (local_link_information pr) \<longrightarrow>
            switch_meta_from_link_info eng p no = Inl LocalLinkInfoMissingException"
    by (auto simp: switch_meta_from_link_info_def lli lli_present_def
             split: option.splits list.splits)
  have present: "\<exists>name. switch_meta_from_link_info eng p no
                       = Inr (Some [(name, lli_port_id l)], network_segmentation_id no)
                 \<and> (\<forall>n. switch_info l = Some n \<and> n \<noteq> [] \<longrightarrow> name = Some n)
                 \<and> (\<forall>m. (switch_info l = None \<or> switch_info l = Some [])
                         \<and> map_of (mac_map eng)
                              (upper (case switch_id l of None \<Rightarrow> [] | Some a \<Rightarrow> a)) = Some m
                       \<longrightarrow> name = Some m)
                 \<and> ((switch_info l = None \<or> switch_info l = Some [])
                         \<and> map_of (mac_map eng)
                              (upper (case switch_id l of None \<Rightarrow> [] | Some a \<Rightarrow> a)) = None
                       \<longrightarrow> name = switch_info l)"
    if "local_link_information pr = Some (l # ls)" for l ls
    using that
    by (auto simp: switch_meta_from_link_info_def lli Let_def in_keys_iff)
  show ?thesis using absent present by blast
qed

theorem switch_meta_from_link_info_resolves_witness:
  "switch_meta_from_link_info example_engine (baremetal_port no_profile) None
     = Inl LocalLinkInfoMissingException
   \<and> switch_meta_from_link_info example_engine
       (baremetal_port \<lparr>local_link_information = Some [example_link], pci_slot = None\<rparr>) None
     = Inr (Some [(Some ''sw2'', Some ''Eth1/3'')], PyStr '''')"
proof -
  have bm: "is_port_baremetal (baremetal_port pr)" for pr
    by (simp add: is_port_baremetal_def baremetal_port_def VNIC_BAREMETAL_def)
  have sup: "VNIC_BAREMETAL \<in> set (SUPPORTED_TYPES example_engine)"
    by (simp add: example_engine_def VNIC_BAREMETAL_def)
  have pr: "if is_Port (baremetal_port pr)
            then \<exists>bs. bindings (baremetal_port pr) = \<lparr>binding_host = [], binding_prof = pr\<rparr> # bs
            else binding_profile (baremetal_port pr) = pr" for pr
    by (simp add: baremetal_port_def)
  have up: "upper ''aa:bb:cc:00:11:22'' = ''AA:BB:CC:00:11:22''"
    by (simp add: upper_def upper_char_def)
  show ?thesis
    using switch_meta_from_link_info_resolves [OF bm sup pr, of no_profile None]
          switch_meta_from_link_info_resolves
            [OF bm sup pr, of "\<lparr>local_link_information = Some [example_link], pci_slot = None\<rparr>" None]
    by (auto simp: no_profile_def lli_present_def example_link_def example_engine_def up
                   network_segmentation_id_def)
qed

section \<open>Topology resolution of host-attached ports\<close>

lemma set_replace_del: "set (replace_del old s) \<subseteq> set s"
proof (induction old s rule: replace_del.induct)
  case (1 old) show ?case by simp
next
  case (2 old c cs)
  show ?case using 2 set_drop_subset[of "length old" "c # cs"] by (auto split: if_splits)
qed

lemma normalize_pci_no_colon: "CHR '':'' \<notin> set (normalize_pci s)"
  by (simp add: normalize_pci_def)

lemma normalize_pci_no_dot: "CHR ''.'' \<notin> set (normalize_pci s)"
proof -
  have "CHR ''.'' \<notin> set (takeWhile (\<lambda>c. c \<noteq> CHR ''.'') s)"
    by (auto dest: set_takeWhileD)
  then show ?thesis using set_replace_del[of "''0000:''" "takeWhile (\<lambda>c. c \<noteq> CHR ''.'') s"]
    by (auto simp: normalize_pci_def)
qed

lemma normalize_pci_function:
  "CHR ''.'' \<notin> set a \<Longrightarrow> normalize_pci (a @ CHR ''.'' # f) = normalize_pci a"
  by (simp add: normalize_pci_def takeWhile_tail)

lemma normalize_pci_domain: "normalize_pci (''0000:'' @ s) = normalize_pci s"
  by (simp add: normalize_pci_def)

text \<open>
  C8 (as amended). For a host-attached port \<^verbatim>\<open>_switch_meta_from_port_host_id\<close> looks
  up the key made of the binding host id, followed for a direct port (with a PCI address
  in its profile) by a dash and the normalised address: the part before the first dot,
  without \<^verbatim>\<open>0000:\<close> and without colons. A key that the table does not hold gives the
  empty mapping list and no error. Two direct ports on one host get the same key exactly
  when their normalised addresses are equal: addresses that differ in the function part
  only share a key.
\<close>

theorem switch_meta_from_port_host_id_key:
  assumes "is_port_direct p \<longrightarrow> pci_slot (binding_profile p) = Some s"
    and "key = (if is_port_direct p then host_id p @ ''-'' @ normalize_pci s else host_id p)"
  shows "(map_of (port_mappings eng) key = None \<longrightarrow>
            switch_meta_from_port_host_id eng p no = Inr (Some [], network_segmentation_id no))
       \<and> (\<forall>ms. map_of (port_mappings eng) key = Some ms \<longrightarrow>
            switch_meta_from_port_host_id eng p no
              = Inr (Some (map (\<lambda>(sw, sp). (Some sw, Some sp)) ms), network_segmentation_id no))
       \<and> CHR '':'' \<notin> set (normalize_pci s) \<and> CHR ''.'' \<notin> set (normalize_pci s)
       \<and> (\<forall>a f. CHR ''.'' \<notin> set a \<longrightarrow> normalize_pci (a @ CHR ''.'' # f) = normalize_pci a)
       \<and> normalize_pci (''0000:'' @ s) = normalize_pci s
       \<and> (\<forall>q s'. is_port_direct p \<and> is_port_direct q \<and> pci_slot (binding_profile q) = Some s' \<longrightarrow>
            (build_sriov_host_id p (host_id p) = build_sriov_host_id q (host_id p)
               \<longleftrightarrow> normalize_pci s = normalize_pci s'))"
  using assms normalize_pci_domain [of s]
  by (auto simp: switch_meta_from_port_host_id_def build_sriov_host_id_def
                 normalize_pci_no_colon normalize_pci_no_dot normalize_pci_function)

theorem switch_meta_from_port_host_id_key_witness:
  "switch_meta_from_port_host_id example_engine
       (vm_port ''p1'' ''compute-1'' ''direct'' (pci_profile ''0000:03:00.1'')) None
     = Inr (Some [(Some ''sw1'', Some ''Eth1/7'')], PyStr '''')
   \<and> switch_meta_from_port_host_id example_engine
       (vm_port ''p2'' ''compute-9'' ''normal'' no_profile) None
     = Inr (Some [], PyStr '''')
   \<and> build_sriov_host_id (vm_port ''p1'' ''compute-1'' ''direct'' (pci_profile ''0000:03:00.1''))
         ''compute-1''
       \<noteq> build_sriov_host_id (vm_port ''p3'' ''compute-1'' ''direct'' (pci_profile ''0000:04:00.1''))
         ''compute-1''"
proof -
  let ?p1 = "vm_port ''p1'' ''compute-1'' ''direct'' (pci_profile ''0000:03:00.1'')"
  let ?p2 = "vm_port ''p2'' ''compute-9'' ''normal'' no_profile"
  let ?p3 = "vm_port ''p3'' ''compute-1'' ''direct'' (pci_profile ''0000:04:00.1'')"
  have d1: "is_port_direct ?p1" and d3: "is_port_direct ?p3" and d2: "\<not> is_port_direct ?p2"
    by (simp_all add: is_port_direct_def vm_port_def VNIC_DIRECT_def)
  have n1: "normalize_pci ''0000:03:00.1'' = ''0300''"
    and n3: "normalize_pci ''0000:04:00.1'' = ''0400''"
    by (simp_all add: normalize_pci_def)
  have a1: "is_port_direct ?p1 \<longrightarrow> pci_slot (binding_profile ?p1) = Some ''0000:03:00.1''"
    by (simp add: vm_port_def pci_profile_def)
  have k1: "''compute-1-0300'' = (if is_port_direct ?p1
              then host_id ?p1 @ ''-'' @ normalize_pci ''0000:03:00.1'' else host_id ?p1)"
    using d1 n1 by (simp add: vm_port_def)
  have a2: "is_port_direct ?p2 \<longrightarrow> pci_slot (binding_profile ?p2) = Some []"
    using d2 by simp
  have k2: "''compute-9'' = (if is_port_direct ?p2
              then host_id ?p2 @ ''-'' @ normalize_pci [] else host_id ?p2)"
    using d2 by (simp add: vm_port_def)
  have s3: "pci_slot (binding_profile ?p3) = Some ''0000:04:00.1''"
    by (simp add: vm_port_def pci_profile_def)
  have h1: "host_id ?p1 = ''compute-1''" by (simp add: vm_port_def)
  note t1 = switch_meta_from_port_host_id_key [OF a1 k1, of example_engine None]
  note t2 = switch_meta_from_port_host_id_key [OF a2 k2, of example_engine None]
  have r1: "switch_meta_from_port_host_id example_engine ?p1 None
              = Inr (Some [(Some ''sw1'', Some ''Eth1/7'')], PyStr '''')"
    using t1 by (simp add: example_engine_def network_segmentation_id_def)
  have r2: "switch_meta_from_port_host_id example_engine ?p2 None = Inr (Some [], PyStr '''')"
    using t2 by (simp add: example_engine_def network_segmentation_id_def)
  have r3: "build_sriov_host_id ?p1 ''compute-1'' \<noteq> build_sriov_host_id ?p3 ''compute-1''"
    using t1 d1 d3 s3 n1 n3 h1 by auto
  show ?thesis using r1 r2 r3 by blast
qed

text \<open>
  C8 as stated fails: two functions of one device have different addresses and the same
  key.
\<close>

theorem direct_ports_same_key_counterexample:
  "is_port_direct (vm_port ''p1'' ''compute-1'' ''direct'' (pci_profile ''0000:03:00.0''))
   \<and> is_port_direct (vm_port ''p2'' ''compute-1'' ''direct'' (pci_profile ''0000:03:00.1''))
   \<and> host_id (vm_port ''p1'' ''compute-1'' ''direct'' (pci_profile ''0000:03:00.0''))
       = host_id (vm_port ''p2'' ''compute-1'' ''direct'' (pci_profile ''0000:03:00.1''))
   \<and> pci_slot (binding_profile (vm_port ''p1'' ''compute-1'' ''direct'' (pci_profile ''0000:03:00.0'')))
       \<noteq> pci_slot (binding_profile (vm_port ''p2'' ''compute-1'' ''direct'' (pci_profile ''0000:03:00.1'')))
   \<and> build_sriov_host_id (vm_port ''p1'' ''compute-1'' ''direct'' (pci_profile ''0000:03:00.0''))
         ''compute-1'' = Inr ''compute-1-0300''
   \<and> build_sriov_host_id (vm_port ''p2'' ''compute-1'' ''direct'' (pci_profile ''0000:03:00.1''))
         ''compute-1'' = Inr ''compute-1-0300''"
  by (simp add: is_port_direct_def vm_port_def pci_profile_def VNIC_DIRECT_def
                build_sriov_host_id_def normalize_pci_def)

section \<open>The state-setting procedure\<close>

lemma example_has_host: "has_host example_engine ''sw1''" "has_host example_engine ''sw2''"
  by (simp_all add: has_host_def example_engine_def)

lemma example_kwargs:
  "kwargs_of example_engine ''sw1'' = Some [(''trunk_mode'', CStr ''tagged'')]"
  "kwargs_of example_engine ''sw2'' = Some [(''stp_edge'', CBool True)]"
  by (simp_all add: kwargs_of_def example_engine_def startswith_def dict_set_def)

lemma assign_port_calls:
  "kwargs_of eng sw = Some kw \<Longrightarrow>
   assign_port eng gw p t sw sp segid =
     ([plug_call eng p t sw sp segid kw],
      if gw (plug_call eng p t sw sp segid kw) then Inl NetworkingAnsibleMechException
      else Inr True)"
  by (simp add: assign_port_def Let_def)

lemma set_port_state_stage:
  assumes "sw \<noteq> []" "sp \<noteq> []" "has_host eng sw"
    and "Network_get_object d (network_id p) = Some net" and "segments net = s0 # ss"
  shows "set_port_state eng gw d (Some p) (Some sw) (Some sp) =
           assign_port eng gw p (Trunk_get_object d (port_id p)) sw sp (segmentation_id s0)"
  using assms by (simp add: set_port_state_def)

text \<open>
  C2. A call of \<^verbatim>\<open>_set_port_state\<close> that reaches the device stage (a port, a switch
  name and a switch port that are not empty, a switch of the inventory, a network with a
  first segment) issues exactly one device call, with the keyword arguments of the switch:
  with a trunk for the port, \<^verbatim>\<open>conf_trunk_port\<close> with the segmentation id of the
  network's first segment and the segmentation ids of all sub-ports of the trunk; without
  a trunk, \<^verbatim>\<open>add_trunk_vlan\<close> for a compute port and \<^verbatim>\<open>conf_access_port\<close> for any
  other, each with that one segmentation id. The call ends in
  \<^verbatim>\<open>NetworkingAnsibleMechException\<close> when the gateway raises and in \<^verbatim>\<open>True\<close>
  otherwise.
\<close>

theorem set_port_state_device_call:
  assumes "sw \<noteq> []" and "sp \<noteq> []" and "has_host eng sw"
    and "Network_get_object d (network_id p) = Some net" and "segments net = s0 # ss"
  shows "\<exists>kw c. kwargs_of eng sw = Some kw
           \<and> set_port_state eng gw d (Some p) (Some sw) (Some sp)
               = ([c], if gw c then Inl NetworkingAnsibleMechException else Inr True)
           \<and> (\<forall>tr. Trunk_get_object d (port_id p) = Some tr \<longrightarrow>
                 c = Conf_trunk_port sw sp (segmentation_id s0)
                       (map sp_segmentation_id (sub_ports tr)) kw)
           \<and> (Trunk_get_object d (port_id p) = None \<and> is_port_normal eng p \<longrightarrow>
                 c = Add_trunk_vlan sw sp (segmentation_id s0) kw)
           \<and> (Trunk_get_object d (port_id p) = None \<and> \<not> is_port_normal eng p \<longrightarrow>
                 c = Conf_access_port sw sp (segmentation_id s0) kw)"
proof -
  obtain kw where kw: "kwargs_of eng sw = Some kw"
    using has_host_kwargs [OF assms(3)] by blast
  let ?c = "plug_call eng p (Trunk_get_object d (port_id p)) sw sp (segmentation_id s0) kw"
  have "set_port_state eng gw d (Some p) (Some sw) (Some sp)
          = ([?c], if gw ?c then Inl NetworkingAnsibleMechException else Inr True)"
    using set_port_state_stage [OF assms] assign_port_calls [OF kw] by simp
  then show ?thesis using kw by (auto simp: plug_call_def)
qed

theorem set_port_state_device_call_witness:
  "set_port_state example_engine never_fails (example_db [] [example_trunk])
      (Some ((baremetal_port no_profile)\<lparr>is_Port := True\<rparr>)) (Some ''sw2'') (Some ''Eth1/3'')
     = ([Conf_trunk_port ''sw2'' ''Eth1/3'' (PyInt 100) [PyInt 60, PyInt 70]
           [(''stp_edge'', CBool True)]], Inr True)
   \<and> set_port_state example_engine never_fails (example_db [] [])
      (Some (vm_port ''p1'' ''compute-1'' ''normal'' no_profile)) (Some ''sw1'') (Some ''Eth1/1'')
     = ([Add_trunk_vlan ''sw1'' ''Eth1/1'' (PyInt 100) [(''trunk_mode'', CStr ''tagged'')]],
        Inr True)
   \<and> set_port_state example_engine never_fails (example_db [] [])
      (Some ((baremetal_port no_profile)\<lparr>is_Port := True\<rparr>)) (Some ''sw2'') (Some ''Eth1/3'')
     = ([Conf_access_port ''sw2'' ''Eth1/3'' (PyInt 100) [(''stp_edge'', CBool True)]],
        Inr True)"
proof -
  let ?bm = "(baremetal_port no_profile)\<lparr>is_Port := True\<rparr>"
  let ?vm = "vm_port ''p1'' ''compute-1'' ''normal'' no_profile"
  have ne: "''sw2'' \<noteq> []" "''Eth1/3'' \<noteq> []" "''sw1'' \<noteq> []" "''Eth1/1'' \<noteq> []"
    by simp_all
  have net: "Network_get_object (example_db ps ts) (network_id ?bm) = Some example_network"
       "Network_get_object (example_db ps ts) (network_id ?vm) = Some example_network" for ps ts
    by (simp_all add: Network_get_object_def example_db_def example_network_def
                      baremetal_port_def vm_port_def)
  have seg: "segments example_network
               = \<lparr>segmentation_id = PyInt 100, physical_network = PyStr ''physnet1'',
                   network_type = ''vlan''\<rparr> # []"
    by (simp add: example_network_def)
  have tr: "Trunk_get_object (example_db [] [example_trunk]) (port_id ?bm) = Some example_trunk"
       "Trunk_get_object (example_db [] []) (port_id ?bm) = None"
       "Trunk_get_object (example_db [] []) (port_id ?vm) = None"
    by (simp_all add: Trunk_get_object_def example_db_def example_trunk_def baremetal_port_def)
  have own: "is_port_normal example_engine ?vm" "\<not> is_port_normal example_engine ?bm"
    by (simp_all add: is_port_normal_def example_engine_def vm_port_def baremetal_port_def)
  have subs: "map sp_segmentation_id (sub_ports example_trunk) = [PyInt 60, PyInt 70]"
    by (simp add: example_trunk_def)
  note a = set_port_state_device_call
             [OF ne(1) ne(2) example_has_host(2) net(1) [of "[]" "[example_trunk]"] seg,
              where gw = never_fails]
  note b = set_port_state_device_call
             [OF ne(3) ne(4) example_has_host(1) net(2) [of "[]" "[]"] seg, where gw = never_fails]
  note c = set_port_state_device_call
             [OF ne(1) ne(2) example_has_host(2) net(1) [of "[]" "[]"] seg, where gw = never_fails]
  have ra: "set_port_state example_engine never_fails (example_db [] [example_trunk])
      (Some ?bm) (Some ''sw2'') (Some ''Eth1/3'')
     = ([Conf_trunk_port ''sw2'' ''Eth1/3'' (PyInt 100) [PyInt 60, PyInt 70]
           [(''stp_edge'', CBool True)]], Inr True)"
    using a tr(1) subs example_kwargs(2) by (auto simp: never_fails_def)
  have rb: "set_port_state example_engine never_fails (example_db [] [])
      (Some ?vm) (Some ''sw1'') (Some ''Eth1/1'')
     = ([Add_trunk_vlan ''sw1'' ''Eth1/1'' (PyInt 100) [(''trunk_mode'', CStr ''tagged'')]],
        Inr True)"
    using b tr(3) own(1) example_kwargs(1) by (auto simp: never_fails_def)
  have rc: "set_port_state example_engine never_fails (example_db [] [])
      (Some ?bm) (Some ''sw2'') (Some ''Eth1/3'')
     = ([Conf_access_port ''sw2'' ''Eth1/3'' (PyInt 100) [(''stp_edge'', CBool True)]],
        Inr True)"
    using c tr(2) own(2) example_kwargs(2) by (auto simp: never_fails_def)
  show ?thesis using ra rb rc by blast
qed

lemma set_port_state_calls_gateway:
  "fst (set_port_state eng gw d po sw sp) = fst (set_port_state eng gw' d po sw sp)"
  by (simp add: set_port_state_def assign_port_def Let_def
           split: option.splits list.splits)

lemma set_port_state_at_most_one_call:
  "length (fst (set_port_state eng gw d po sw sp)) \<le> 1"
  by (simp add: set_port_state_def assign_port_def Let_def
           split: option.splits list.splits)

text \<open>
  C5. \<^verbatim>\<open>_set_port_state\<close> is idempotent. Two calls in succession on the same
  control-plane state, whatever the gateway answers to each, issue the same device calls
  with the same arguments; the procedure itself writes nothing. As each call issues at
  most one device operation, on a device whose single operations are idempotent the second
  call changes nothing: applying the calls of both runs leaves the device where the calls
  of the first run left it.
\<close>

theorem set_port_state_idempotent:
  assumes "\<And>c s. app c (app c s) = app c s"
  shows "fst (set_port_state eng gw2 d po sw sp) = fst (set_port_state eng gw1 d po sw sp)
       \<and> fold app (fst (set_port_state eng gw1 d po sw sp)
                     @ fst (set_port_state eng gw2 d po sw sp)) s
           = fold app (fst (set_port_state eng gw1 d po sw sp)) s"
proof -
  let ?cs = "fst (set_port_state eng gw1 d po sw sp)"
  have same: "fst (set_port_state eng gw2 d po sw sp) = ?cs"
    by (rule set_port_state_calls_gateway)
  have "length ?cs \<le> 1" by (rule set_port_state_at_most_one_call)
  then consider "?cs = []" | c where "?cs = [c]"
    by (cases ?cs) auto
  then have "fold app (?cs @ ?cs) s = fold app ?cs s"
    using assms by cases simp_all
  then show ?thesis using same by simp
qed

theorem set_port_state_idempotent_witness:
  "fst (set_port_state example_engine always_fails (example_db [] [example_trunk])
      (Some ((baremetal_port no_profile)\<lparr>is_Port := True\<rparr>)) (Some ''sw2'') (Some ''Eth1/3''))
     = fst (set_port_state example_engine never_fails (example_db [] [example_trunk])
      (Some ((baremetal_port no_profile)\<lparr>is_Port := True\<rparr>)) (Some ''sw2'') (Some ''Eth1/3''))
   \<and> fold insert
        (fst (set_port_state example_engine never_fails (example_db [] [example_trunk])
           (Some ((baremetal_port no_profile)\<lparr>is_Port := True\<rparr>)) (Some ''sw2'') (Some ''Eth1/3''))
         @ fst (set_port_state example_engine always_fails (example_db [] [example_trunk])
           (Some ((baremetal_port no_profile)\<lparr>is_Port := True\<rparr>)) (Some ''sw2'') (Some ''Eth1/3'')))
        {}
     = {Conf_trunk_port ''sw2'' ''Eth1/3'' (PyInt 100) [PyInt 60, PyInt 70]
           [(''stp_edge'', CBool True)]}"
proof -
  have idem: "insert c (insert c s) = insert c s" for c :: device_call and s
    by simp
  have run: "fst (set_port_state example_engine never_fails (example_db [] [example_trunk])
      (Some ((baremetal_port no_profile)\<lparr>is_Port := True\<rparr>)) (Some ''sw2'') (Some ''Eth1/3''))
     = [Conf_trunk_port ''sw2'' ''Eth1/3'' (PyInt 100) [PyInt 60, PyInt 70]
           [(''stp_edge'', CBool True)]]"
    by (simp add: set_port_state_def has_host_def example_engine_def Network_get_object_def
          example_db_def example_network_def baremetal_port_def Trunk_get_object_def
          example_trunk_def assign_port_def kwargs_of_def startswith_def dict_set_def
          plug_call_def never_fails_def)
  show ?thesis
    using set_port_state_idempotent [of insert example_engine always_fails
            "example_db [] [example_trunk]"
            "Some ((baremetal_port no_profile)\<lparr>is_Port := True\<rparr>)" "Some ''sw2''"
            "Some ''Eth1/3''" never_fails "{}", OF idem]
    by (simp add: run)
qed

text \<open>
  The checks before the device stage, in their order, none with a device call: no port,
  no switch name or switch port, a switch that the inventory does not hold, and, for a
  stored \<^verbatim>\<open>Port\<close>, a network that cannot be read.
\<close>

lemma set_port_state_checks:
  "set_port_state eng gw d None sw sp = ([], Inl (MechanismDriverError NullPort))"
  "sw = None \<or> sw = Some [] \<or> sp = None \<or> sp = Some [] \<Longrightarrow>
     set_port_state eng gw d (Some p) sw sp = ([], Inl (MechanismDriverError MissingSwitchOrPort))"
  "s \<noteq> [] \<Longrightarrow> t \<noteq> [] \<Longrightarrow> \<not> has_host eng s \<Longrightarrow>
     set_port_state eng gw d (Some p) (Some s) (Some t)
       = ([], Inl (MechanismDriverError SwitchNotInInventory))"
  "s \<noteq> [] \<Longrightarrow> t \<noteq> [] \<Longrightarrow> has_host eng s \<Longrightarrow> Network_get_object d (network_id p) = None \<Longrightarrow>
     is_Port p \<Longrightarrow>
     set_port_state eng gw d (Some p) (Some s) (Some t)
       = ([], Inl (MechanismDriverError NetworkNotFound))"
  by (auto simp: set_port_state_def split: option.splits)

text \<open>
  C9 at a port dictionary. \<^verbatim>\<open>ensure_port\<close> hands the dictionary of a compute port to
  \<^verbatim>\<open>_set_port_state\<close>; when the network of the port cannot be read, formatting the
  message of the error reads \<^verbatim>\<open>port.id\<close>, and the call ends in \<^verbatim>\<open>AttributeError\<close>
  instead of the \<^verbatim>\<open>MechanismDriverError\<close> for the missing network.
\<close>

theorem set_port_state_missing_network_dict_port:
  "Network_get_object empty_db (network_id (vm_port ''p1'' ''compute-1'' ''normal'' no_profile)) = None
   \<and> set_port_state example_engine never_fails empty_db
       (Some (vm_port ''p1'' ''compute-1'' ''normal'' no_profile)) (Some ''sw1'') (Some ''Eth1/1'')
     = ([], Inl AttributeError)
   \<and> ensure_port example_engine never_fails empty_db
       (vm_port ''p1'' ''compute-1'' ''normal'' no_profile) (Some ''sw1'') (Some ''Eth1/1'')
       (PyStr ''physnet1'') None (PyInt 100) False
     = ([], Inl AttributeError)"
  by (simp add: set_port_state_def ensure_port_def has_host_def example_engine_def
        Network_get_object_def empty_db_def vm_port_def is_port_normal_def)

section \<open>Creating the VLAN of a network\<close>

lemma create_network_loop_calls:
  "c \<in> set (fst (create_network_loop eng gw db_at network hosts)) \<Longrightarrow>
   \<exists>h cfg sid kw net. c = Create_vlan h sid kw \<and> (h, cfg) \<in> set hosts \<and> manage_vlans cfg
      \<and> kwargs_of eng h = Some kw
      \<and> provider_network_type network = ''vlan''
      \<and> provider_segmentation_id network = Some sid \<and> truthy sid
      \<and> Network_get_object (db_at h) (net_id network) = Some net
      \<and> sid \<in> segmentation_id ` set (segments net)"
proof (induction hosts)
  case Nil
  then show ?case by simp
next
  case (Cons x hosts)
  obtain h cfg where x: "x = (h, cfg)" by (cases x)
  show ?case
  proof (cases "c \<in> set (fst (create_network_loop eng gw db_at network hosts))")
    case True
    from Cons.IH [OF True] show ?thesis by (auto simp: x)
  next
    case False
    with Cons.prems show ?thesis
      by (auto simp: x Let_def split: if_splits option.splits prod.splits)
  qed
qed

lemma create_network_loop_stale:
  assumes "provider_segmentation_id network = Some sid"
    and "\<forall>(h, cfg) \<in> set hosts.
           (case Network_get_object (db_at h) (net_id network) of
              None \<Rightarrow> True
            | Some net \<Rightarrow> sid \<notin> segmentation_id ` set (segments net))"
  shows "create_network_loop eng gw db_at network hosts = ([], Inr ())"
  using assms(2)
proof (induction hosts)
  case Nil
  then show ?case by simp
next
  case (Cons x hosts)
  obtain h cfg where x: "x = (h, cfg)" by (cases x)
  from Cons.prems have rest: "create_network_loop eng gw db_at network hosts = ([], Inr ())"
    by (intro Cons.IH) simp
  from Cons.prems have here:
    "case Network_get_object (db_at h) (net_id network) of
       None \<Rightarrow> True | Some net \<Rightarrow> sid \<notin> segmentation_id ` set (segments net)"
    by (simp add: x)
  show ?case using here rest assms(1)
    by (auto simp: x split: option.splits)
qed

text \<open>
  C3. \<^verbatim>\<open>create_network_postcommit\<close> issues \<^verbatim>\<open>create_vlan\<close> on a switch only when
  the switch manages VLANs and the network, read again under the lock of that switch,
  exists and has a segment with the segmentation id of the event. When, under every lock,
  the network is gone or has no segment with that id any more, the handler issues no call
  and raises nothing.
\<close>

theorem create_network_postcommit_fresh:
  "(\<forall>h sid kw. Create_vlan h sid kw \<in> set (fst (create_network_postcommit eng gw db_at network))
      \<longrightarrow> (\<exists>cfg net. (h, cfg) \<in> set (inventory eng) \<and> manage_vlans cfg
              \<and> provider_segmentation_id network = Some sid
              \<and> Network_get_object (db_at h) (net_id network) = Some net
              \<and> sid \<in> segmentation_id ` set (segments net)))
   \<and> (\<forall>sid. provider_segmentation_id network = Some sid
         \<and> (\<forall>(h, cfg) \<in> set (inventory eng).
               Network_get_object (db_at h) (net_id network) = None
               \<or> (\<exists>net. Network_get_object (db_at h) (net_id network) = Some net
                        \<and> sid \<notin> segmentation_id ` set (segments net)))
      \<longrightarrow> create_network_postcommit eng gw db_at network = ([], Inr ()))"
proof (intro conjI allI impI)
  fix h sid kw
  assume "Create_vlan h sid kw \<in> set (fst (create_network_postcommit eng gw db_at network))"
  then show "\<exists>cfg net. (h, cfg) \<in> set (inventory eng) \<and> manage_vlans cfg
              \<and> provider_segmentation_id network = Some sid
              \<and> Network_get_object (db_at h) (net_id network) = Some net
              \<and> sid \<in> segmentation_id ` set (segments net)"
    unfolding create_network_postcommit_def
    by (blast dest: create_network_loop_calls)
next
  fix sid
  assume a: "provider_segmentation_id network = Some sid
         \<and> (\<forall>(h, cfg) \<in> set (inventory eng).
               Network_get_object (db_at h) (net_id network) = None
               \<or> (\<exists>net. Network_get_object (db_at h) (net_id network) = Some net
                        \<and> sid \<notin> segmentation_id ` set (segments net)))"
  then have "\<forall>(h, cfg) \<in> set (inventory eng).
           (case Network_get_object (db_at h) (net_id network) of
              None \<Rightarrow> True
            | Some net \<Rightarrow> sid \<notin> segmentation_id ` set (segments net))"
    by (auto split: option.splits)
  with a show "create_network_postcommit eng gw db_at network = ([], Inr ())"
    unfolding create_network_postcommit_def
    by (intro create_network_loop_stale [where sid = sid]) auto
qed

theorem create_network_postcommit_fresh_witness:
  "create_network_postcommit example_engine never_fails (\<lambda>h. example_db [] []) example_network
     = ([Create_vlan ''sw1'' (PyInt 100) [(''trunk_mode'', CStr ''tagged'')]], Inr ())
   \<and> Network_get_object (example_db [] []) (net_id example_network) = Some example_network
   \<and> PyInt 100 \<in> segmentation_id ` set (segments example_network)
   \<and> create_network_postcommit example_engine never_fails (\<lambda>h. stale_db) example_network
     = ([], Inr ())
   \<and> create_network_postcommit example_engine never_fails (\<lambda>h. empty_db) example_network
     = ([], Inr ())"
proof -
  have run: "create_network_postcommit example_engine never_fails (\<lambda>h. example_db [] [])
               example_network
     = ([Create_vlan ''sw1'' (PyInt 100) [(''trunk_mode'', CStr ''tagged'')]], Inr ())"
    by (simp add: create_network_postcommit_def example_engine_def manage_vlans_def
          example_network_def Network_get_object_def example_db_def kwargs_of_def
          startswith_def dict_set_def never_fails_def)
  have seg: "provider_segmentation_id example_network = Some (PyInt 100)"
    by (simp add: example_network_def)
  have s1: "\<forall>(h, cfg) \<in> set (inventory example_engine).
               Network_get_object stale_db (net_id example_network) = None
               \<or> (\<exists>net. Network_get_object stale_db (net_id example_network) = Some net
                        \<and> PyInt 100 \<notin> segmentation_id ` set (segments net))"
    by (simp add: Network_get_object_def stale_db_def example_network_def)
  have s2: "\<forall>(h, cfg) \<in> set (inventory example_engine).
               Network_get_object empty_db (net_id example_network) = None
               \<or> (\<exists>net. Network_get_object empty_db (net_id example_network) = Some net
                        \<and> PyInt 100 \<notin> segmentation_id ` set (segments net))"
    by (simp add: Network_get_object_def empty_db_def)
  note t = create_network_postcommit_fresh
  have a: "Network_get_object (example_db [] []) (net_id example_network) = Some example_network
           \<and> PyInt 100 \<in> segmentation_id ` set (segments example_network)"
  proof -
    have "Create_vlan ''sw1'' (PyInt 100) [(''trunk_mode'', CStr ''tagged'')]
            \<in> set (fst (create_network_postcommit example_engine never_fails
                            (\<lambda>h. example_db [] []) example_network))"
      by (simp add: run)
    with t [of example_engine never_fails "\<lambda>h. example_db [] []" example_network]
    obtain net where "Network_get_object (example_db [] []) (net_id example_network) = Some net"
      and "PyInt 100 \<in> segmentation_id ` set (segments net)"
      by blast
    moreover have "Network_get_object (example_db [] []) (net_id example_network)
                     = Some example_network"
      by (simp add: Network_get_object_def example_db_def)
    ultimately show ?thesis by simp
  qed
  have b: "create_network_postcommit example_engine never_fails (\<lambda>h. stale_db) example_network
     = ([], Inr ())"
    using t [of example_engine never_fails "\<lambda>h. stale_db" example_network] seg s1 by blast
  have c: "create_network_postcommit example_engine never_fails (\<lambda>h. empty_db) example_network
     = ([], Inr ())"
    using t [of example_engine never_fails "\<lambda>h. empty_db" example_network] seg s2 by blast
  show ?thesis using run a b c by blast
qed

section \<open>Deleting the VLAN of a network\<close>

lemma delete_network_loop_calls:
  "c \<in> set (fst (delete_network_loop eng gw db_at network hosts)) \<Longrightarrow>
   \<exists>h cfg sid kw. c = Delete_vlan h sid kw \<and> (h, cfg) \<in> set hosts \<and> manage_vlans cfg
      \<and> kwargs_of eng h = Some kw
      \<and> provider_network_type network = ''vlan''
      \<and> provider_segmentation_id network = Some sid \<and> truthy sid
      \<and> \<not> list_ex (segment_matches sid (provider_physical_network network))
             (NetworkSegment_get_objects (db_at h) sid)"
proof (induction hosts)
  case Nil
  then show ?case by simp
next
  case (Cons x hosts)
  obtain h cfg where x: "x = (h, cfg)" by (cases x)
  show ?case
  proof (cases "c \<in> set (fst (delete_network_loop eng gw db_at network hosts))")
    case True
    from Cons.IH [OF True] show ?thesis by (auto simp: x)
  next
    case False
    with Cons.prems show ?thesis
      by (auto simp: x Let_def split: if_splits option.splits prod.splits)
  qed
qed

lemma segment_matches_store:
  "list_ex (segment_matches sid physnet) (NetworkSegment_get_objects d sid)
     \<longleftrightarrow> (\<exists>s \<in> set (db_segments d). segmentation_id s = sid \<and> physical_network s = physnet
                 \<and> network_type s = ''vlan'')"
  by (auto simp: list_ex_iff NetworkSegment_get_objects_def segment_matches_def)

lemma delete_network_loop_recreated:
  assumes "provider_segmentation_id network = Some sid"
    and "\<forall>(h, cfg) \<in> set hosts.
           list_ex (segment_matches sid (provider_physical_network network))
             (NetworkSegment_get_objects (db_at h) sid)"
  shows "delete_network_loop eng gw db_at network hosts = ([], Inr ())"
  using assms(2)
proof (induction hosts)
  case Nil
  then show ?case by simp
next
  case (Cons x hosts)
  obtain h cfg where x: "x = (h, cfg)" by (cases x)
  from Cons.prems have rest: "delete_network_loop eng gw db_at network hosts = ([], Inr ())"
    by (intro Cons.IH) simp
  from Cons.prems have here:
    "list_ex (segment_matches sid (provider_physical_network network))
       (NetworkSegment_get_objects (db_at h) sid)"
    by (simp add: x)
  show ?case using here rest assms(1)
    by (simp add: x)
qed

text \<open>
  C4. \<^verbatim>\<open>delete_network_postcommit\<close> issues \<^verbatim>\<open>delete_vlan\<close> on a switch only when
  the switch manages VLANs and, under the lock of that switch, no segment of the whole
  store has the segmentation id and the physical network of the event and the type
  \<^verbatim>\<open>vlan\<close>. When such a segment is there under every lock, the handler issues no
  call and raises nothing.
\<close>

theorem delete_network_postcommit_unused:
  "(\<forall>h sid kw. Delete_vlan h sid kw \<in> set (fst (delete_network_postcommit eng gw db_at network))
      \<longrightarrow> (\<exists>cfg. (h, cfg) \<in> set (inventory eng) \<and> manage_vlans cfg)
          \<and> provider_segmentation_id network = Some sid
          \<and> \<not> (\<exists>s \<in> set (db_segments (db_at h)).
                  segmentation_id s = sid
                  \<and> physical_network s = provider_physical_network network
                  \<and> network_type s = ''vlan''))
   \<and> (\<forall>sid. provider_segmentation_id network = Some sid
         \<and> (\<forall>(h, cfg) \<in> set (inventory eng).
               \<exists>s \<in> set (db_segments (db_at h)).
                  segmentation_id s = sid
                  \<and> physical_network s = provider_physical_network network
                  \<and> network_type s = ''vlan'')
      \<longrightarrow> delete_network_postcommit eng gw db_at network = ([], Inr ()))"
proof -
  have only: "(\<exists>cfg. (h, cfg) \<in> set (inventory eng) \<and> manage_vlans cfg)
          \<and> provider_segmentation_id network = Some sid
          \<and> \<not> (\<exists>s \<in> set (db_segments (db_at h)).
                  segmentation_id s = sid
                  \<and> physical_network s = provider_physical_network network
                  \<and> network_type s = ''vlan'')"
    if "Delete_vlan h sid kw \<in> set (fst (delete_network_postcommit eng gw db_at network))"
    for h sid kw
  proof -
    from that obtain cfg where "(h, cfg) \<in> set (inventory eng)" "manage_vlans cfg"
      "provider_segmentation_id network = Some sid"
      "\<not> list_ex (segment_matches sid (provider_physical_network network))
             (NetworkSegment_get_objects (db_at h) sid)"
      unfolding delete_network_postcommit_def
      by (blast dest: delete_network_loop_calls)
    then show ?thesis unfolding segment_matches_store by blast
  qed
  have discard: "delete_network_postcommit eng gw db_at network = ([], Inr ())"
    if a: "provider_segmentation_id network = Some sid
         \<and> (\<forall>(h, cfg) \<in> set (inventory eng).
               \<exists>s \<in> set (db_segments (db_at h)).
                  segmentation_id s = sid
                  \<and> physical_network s = provider_physical_network network
                  \<and> network_type s = ''vlan'')" for sid
  proof -
    from a have "\<forall>(h, cfg) \<in> set (inventory eng).
           list_ex (segment_matches sid (provider_physical_network network))
             (NetworkSegment_get_objects (db_at h) sid)"
      unfolding segment_matches_store by blast
    with a show ?thesis
      unfolding delete_network_postcommit_def
      by (intro delete_network_loop_recreated [where sid = sid]) auto
  qed
  show ?thesis using only discard by blast
qed

theorem delete_network_postcommit_unused_witness:
  "delete_network_postcommit example_engine never_fails (\<lambda>h. stale_db) example_network
     = ([Delete_vlan ''sw1'' (PyInt 100) [(''trunk_mode'', CStr ''tagged'')]], Inr ())
   \<and> \<not> (\<exists>s \<in> set (db_segments stale_db).
           segmentation_id s = PyInt 100
           \<and> physical_network s = provider_physical_network example_network
           \<and> network_type s = ''vlan'')
   \<and> delete_network_postcommit example_engine never_fails (\<lambda>h. example_db [] []) example_network
     = ([], Inr ())"
proof -
  have run: "delete_network_postcommit example_engine never_fails (\<lambda>h. stale_db) example_network
     = ([Delete_vlan ''sw1'' (PyInt 100) [(''trunk_mode'', CStr ''tagged'')]], Inr ())"
    by (simp add: delete_network_postcommit_def example_engine_def manage_vlans_def
          example_network_def NetworkSegment_get_objects_def stale_db_def kwargs_of_def
          startswith_def dict_set_def never_fails_def segment_matches_def)
  have seg: "provider_segmentation_id example_network = Some (PyInt 100)"
    by (simp add: example_network_def)
  have again: "\<forall>(h, cfg) \<in> set (inventory example_engine).
               \<exists>s \<in> set (db_segments (example_db [] [])).
                  segmentation_id s = PyInt 100
                  \<and> physical_network s = provider_physical_network example_network
                  \<and> network_type s = ''vlan''"
    by (simp add: example_db_def example_network_def)
  note t = delete_network_postcommit_unused
  have a: "\<not> (\<exists>s \<in> set (db_segments stale_db).
           segmentation_id s = PyInt 100
           \<and> physical_network s = provider_physical_network example_network
           \<and> network_type s = ''vlan'')"
  proof -
    have "Delete_vlan ''sw1'' (PyInt 100) [(''trunk_mode'', CStr ''tagged'')]
            \<in> set (fst (delete_network_postcommit example_engine never_fails
                            (\<lambda>h. stale_db) example_network))"
      by (simp add: run)
    with t [of example_engine never_fails "\<lambda>h. stale_db" example_network]
    show ?thesis by blast
  qed
  have b: "delete_network_postcommit example_engine never_fails (\<lambda>h. example_db [] [])
             example_network = ([], Inr ())"
    using t [of example_engine never_fails "\<lambda>h. example_db [] []" example_network] seg again
    by blast
  show ?thesis using run a b by blast
qed

section \<open>The flag that switches VLAN management off\<close>

text \<open>
  C10. A switch without a \<^verbatim>\<open>manage_vlans\<close> entry manages VLANs: both handlers treat
  it as they treat the same switch with the flag set to \<^verbatim>\<open>True\<close>, and issue their
  call on it when the event is still current. A switch is passed over, by both handlers,
  exactly when the entry is there and false.
\<close>

theorem manage_vlans_default:
  "(map_of cfg ''manage_vlans'' = None \<longrightarrow>
      manage_vlans cfg
      \<and> create_network_loop eng gw db_at network ((h, cfg) # rest)
          = create_network_loop eng gw db_at network ((h, (''manage_vlans'', CBool True) # cfg) # rest)
      \<and> delete_network_loop eng gw db_at network ((h, cfg) # rest)
          = delete_network_loop eng gw db_at network ((h, (''manage_vlans'', CBool True) # cfg) # rest)
      \<and> (\<forall>sid kw net. provider_network_type network = ''vlan''
            \<and> provider_segmentation_id network = Some sid \<and> truthy sid
            \<and> kwargs_of eng h = Some kw
            \<and> Network_get_object (db_at h) (net_id network) = Some net
            \<and> sid \<in> segmentation_id ` set (segments net)
          \<longrightarrow> (\<exists>cs. fst (create_network_loop eng gw db_at network ((h, cfg) # rest))
                       = Create_vlan h sid kw # cs))
      \<and> (\<forall>sid kw. provider_network_type network = ''vlan''
            \<and> provider_segmentation_id network = Some sid \<and> truthy sid
            \<and> kwargs_of eng h = Some kw
            \<and> \<not> (\<exists>s \<in> set (db_segments (db_at h)).
                    segmentation_id s = sid
                    \<and> physical_network s = provider_physical_network network
                    \<and> network_type s = ''vlan'')
          \<longrightarrow> (\<exists>cs. fst (delete_network_loop eng gw db_at network ((h, cfg) # rest))
                       = Delete_vlan h sid kw # cs)))
   \<and> (\<forall>b. map_of cfg ''manage_vlans'' = Some (CBool b) \<longrightarrow> manage_vlans cfg = b)
   \<and> (\<not> manage_vlans cfg \<longleftrightarrow> (\<exists>v. map_of cfg ''manage_vlans'' = Some v \<and> \<not> cfg_truthy v))
   \<and> (\<not> manage_vlans cfg \<longrightarrow>
        create_network_loop eng gw db_at network ((h, cfg) # rest)
          = create_network_loop eng gw db_at network rest
        \<and> (provider_segmentation_id network \<noteq> None \<longrightarrow>
             delete_network_loop eng gw db_at network ((h, cfg) # rest)
               = delete_network_loop eng gw db_at network rest))"
proof -
  have t: "manage_vlans ((''manage_vlans'', CBool True) # cfg)"
    by (simp add: manage_vlans_def)
  have d: "map_of cfg ''manage_vlans'' = None \<Longrightarrow> manage_vlans cfg"
    by (simp add: manage_vlans_def)
  have c1: "map_of cfg ''manage_vlans'' = None \<Longrightarrow>
      create_network_loop eng gw db_at network ((h, cfg) # rest)
          = create_network_loop eng gw db_at network ((h, (''manage_vlans'', CBool True) # cfg) # rest)"
    using t d by (simp del: map_of.simps)
  have c2: "map_of cfg ''manage_vlans'' = None \<Longrightarrow>
      delete_network_loop eng gw db_at network ((h, cfg) # rest)
          = delete_network_loop eng gw db_at network ((h, (''manage_vlans'', CBool True) # cfg) # rest)"
    using t d by (simp del: map_of.simps split: option.splits)
  have c3: "\<exists>cs. fst (create_network_loop eng gw db_at network ((h, cfg) # rest))
                       = Create_vlan h sid kw # cs"
    if "map_of cfg ''manage_vlans'' = None" "provider_network_type network = ''vlan''
            \<and> provider_segmentation_id network = Some sid \<and> truthy sid
            \<and> kwargs_of eng h = Some kw
            \<and> Network_get_object (db_at h) (net_id network) = Some net
            \<and> sid \<in> segmentation_id ` set (segments net)" for sid kw net
    using that d by (auto simp: Let_def split: prod.splits)
  have c4: "\<exists>cs. fst (delete_network_loop eng gw db_at network ((h, cfg) # rest))
                       = Delete_vlan h sid kw # cs"
    if "map_of cfg ''manage_vlans'' = None" "provider_network_type network = ''vlan''
            \<and> provider_segmentation_id network = Some sid \<and> truthy sid
            \<and> kwargs_of eng h = Some kw
            \<and> \<not> (\<exists>s \<in> set (db_segments (db_at h)).
                    segmentation_id s = sid
                    \<and> physical_network s = provider_physical_network network
                    \<and> network_type s = ''vlan'')" for sid kw
    using that d by (auto simp: Let_def segment_matches_store split: prod.splits)
  have c5: "map_of cfg ''manage_vlans'' = Some (CBool b) \<Longrightarrow> manage_vlans cfg = b" for b
    by (simp add: manage_vlans_def)
  have c6: "\<not> manage_vlans cfg \<longleftrightarrow> (\<exists>v. map_of cfg ''manage_vlans'' = Some v \<and> \<not> cfg_truthy v)"
    by (auto simp: manage_vlans_def split: option.splits)
  have c7: "\<not> manage_vlans cfg \<Longrightarrow>
        create_network_loop eng gw db_at network ((h, cfg) # rest)
          = create_network_loop eng gw db_at network rest"
    by simp
  have c8: "\<not> manage_vlans cfg \<Longrightarrow> provider_segmentation_id network \<noteq> None \<Longrightarrow>
             delete_network_loop eng gw db_at network ((h, cfg) # rest)
               = delete_network_loop eng gw db_at network rest"
    by (auto split: option.splits)
  show ?thesis using d c1 c2 c3 c4 c5 c6 c7 c8 by blast
qed

theorem manage_vlans_default_witness:
  "(\<exists>cs. fst (create_network_postcommit example_engine never_fails (\<lambda>h. example_db [] [])
                 example_network)
            = Create_vlan ''sw1'' (PyInt 100) [(''trunk_mode'', CStr ''tagged'')] # cs)
   \<and> (\<exists>cs. fst (delete_network_postcommit example_engine never_fails (\<lambda>h. empty_db)
                 example_network)
            = Delete_vlan ''sw1'' (PyInt 100) [(''trunk_mode'', CStr ''tagged'')] # cs)
   \<and> create_network_loop example_engine never_fails (\<lambda>h. example_db [] []) example_network
        [(''sw2'', [(''manage_vlans'', CBool False), (''stp_edge'', CBool True)])] = ([], Inr ())
   \<and> delete_network_loop example_engine never_fails (\<lambda>h. empty_db) example_network
        [(''sw2'', [(''manage_vlans'', CBool False), (''stp_edge'', CBool True)])] = ([], Inr ())"
proof -
  let ?cfg1 = "[(''ansible_network_os'', CStr ''junos''), (''cp_trunk_mode'', CStr ''tagged'')]"
  let ?cfg2 = "[(''manage_vlans'', CBool False), (''stp_edge'', CBool True)]"
  have inv: "inventory example_engine = [(''sw1'', ?cfg1), (''sw2'', ?cfg2)]"
    by (simp add: example_engine_def)
  have absent: "map_of ?cfg1 ''manage_vlans'' = None" by simp
  have off: "\<not> manage_vlans ?cfg2" by (simp add: manage_vlans_def)
  have net: "provider_network_type example_network = ''vlan''"
    "provider_segmentation_id example_network = Some (PyInt 100)" "truthy (PyInt 100)"
    by (simp_all add: example_network_def)
  have fresh: "Network_get_object (example_db [] []) (net_id example_network) = Some example_network"
    "PyInt 100 \<in> segmentation_id ` set (segments example_network)"
    by (simp_all add: Network_get_object_def example_db_def example_network_def)
  have unused: "\<not> (\<exists>s \<in> set (db_segments empty_db).
                    segmentation_id s = PyInt 100
                    \<and> physical_network s = provider_physical_network example_network
                    \<and> network_type s = ''vlan'')"
    by (simp add: empty_db_def)
  note t1 = manage_vlans_default [of ?cfg1 example_engine never_fails "\<lambda>h. example_db [] []"
              example_network "''sw1''" "[(''sw2'', ?cfg2)]"]
  note t2 = manage_vlans_default [of ?cfg1 example_engine never_fails "\<lambda>h. empty_db"
              example_network "''sw1''" "[(''sw2'', ?cfg2)]"]
  note t3 = manage_vlans_default [of ?cfg2 example_engine never_fails "\<lambda>h. example_db [] []"
              example_network "''sw2''" "[]"]
  note t4 = manage_vlans_default [of ?cfg2 example_engine never_fails "\<lambda>h. empty_db"
              example_network "''sw2''" "[]"]
  have a: "\<exists>cs. fst (create_network_postcommit example_engine never_fails
                       (\<lambda>h. example_db [] []) example_network)
            = Create_vlan ''sw1'' (PyInt 100) [(''trunk_mode'', CStr ''tagged'')] # cs"
    unfolding create_network_postcommit_def inv
    using t1 absent net fresh example_kwargs(1) by blast
  have b: "\<exists>cs. fst (delete_network_postcommit example_engine never_fails (\<lambda>h. empty_db)
                 example_network)
            = Delete_vlan ''sw1'' (PyInt 100) [(''trunk_mode'', CStr ''tagged'')] # cs"
    unfolding delete_network_postcommit_def inv
    using t2 absent net unused example_kwargs(1) by blast
  have c: "create_network_loop example_engine never_fails (\<lambda>h. example_db [] []) example_network
        [(''sw2'', ?cfg2)] = ([], Inr ())"
    using t3 off by simp
  have d: "delete_network_loop example_engine never_fails (\<lambda>h. empty_db) example_network
        [(''sw2'', ?cfg2)] = ([], Inr ())"
    using t4 off net(2) by simp
  show ?thesis using a b c d by blast
qed

section \<open>Ensuring a port that the store no longer holds\<close>

lemma get_port_lli_bound:
  "bindings q \<noteq> [] \<Longrightarrow> \<exists>l. get_port_lli eng (Some q) = Inr l"
  by (auto simp: get_port_lli_def split: list.splits)

lemma first_match_loop:
  assumes "f [] = Inr False"
    and "\<And>p ps. f (p # ps) = (if U p then Inr True else f ps)"
  shows "f ps = Inr (\<exists>q \<in> set ps. U q)"
  by (induction ps) (simp_all add: assms)

lemma deleted_port_in_use_loop_step:
  "deleted_port_in_use_loop eng d physnet (p # ps) =
     (if bindings p \<noteq> []
         \<and> (\<exists>l. get_port_lli eng (Some p) = Inr l \<and> lli_present l)
         \<and> (\<exists>net. Network_get_object d (network_id p) = Some net
               \<and> (\<exists>seg \<in> set (segments net).
                     physical_network seg = physnet \<and> network_type seg = ''vlan''))
      then Inr True else deleted_port_in_use_loop eng d physnet ps)"
proof (cases "bindings p = []")
  case True
  then show ?thesis by simp
next
  case False
  then obtain l where l: "get_port_lli eng (Some p) = Inr l"
    using get_port_lli_bound by blast
  show ?thesis
  proof (cases "Network_get_object d (network_id p)")
    case None
    then show ?thesis using False l by simp
  next
    case (Some net)
    then show ?thesis using False l by (auto simp: list_ex_iff)
  qed
qed

lemma deleted_port_in_use_loop_eq:
  "deleted_port_in_use_loop eng d physnet ps =
     Inr (\<exists>q \<in> set ps. bindings q \<noteq> []
            \<and> (\<exists>l. get_port_lli eng (Some q) = Inr l \<and> lli_present l)
            \<and> (\<exists>net. Network_get_object d (network_id q) = Some net
                  \<and> (\<exists>seg \<in> set (segments net).
                        physical_network seg = physnet \<and> network_type seg = ''vlan'')))"
  by (rule first_match_loop) (simp, rule deleted_port_in_use_loop_step)

text \<open>
  C6. \<^verbatim>\<open>ensure_port\<close> for a port that is not a compute port and that the store no
  longer holds, on a switch of the inventory: when some port with the same MAC address
  has a binding and link information and is on a network with a VLAN segment on the same
  physical network, no device call is made; otherwise exactly one \<^verbatim>\<open>delete_port\<close>
  call is issued for the switch port.
\<close>

theorem ensure_port_deleted_port:
  assumes "has_host eng sw" and "\<not> is_port_normal eng p"
    and "Port_get_object d (port_id p) = None"
  shows "\<exists>kw. kwargs_of eng sw = Some kw
     \<and> ensure_port eng gw d p (Some sw) switch_port physnet ctx segid delete =
         (if \<exists>q \<in> set (db_ports d). mac_address q = mac_address p \<and> bindings q \<noteq> []
                \<and> (\<exists>l. get_port_lli eng (Some q) = Inr l \<and> lli_present l)
                \<and> (\<exists>net. Network_get_object d (network_id q) = Some net
                      \<and> (\<exists>seg \<in> set (segments net).
                            physical_network seg = physnet \<and> network_type seg = ''vlan''))
          then ([], Inr None)
          else ([Delete_port sw switch_port kw],
                if gw (Delete_port sw switch_port kw) then Inl NetworkingAnsibleMechException
                else Inr None))"
proof -
  obtain kw where kw: "kwargs_of eng sw = Some kw"
    using has_host_kwargs [OF assms(1)] by blast
  have lli: "get_port_lli eng (Port_get_object d (port_id p)) = Inr None"
    by (simp add: assms(3) get_port_lli_def)
  have use: "is_deleted_port_in_use eng d physnet (mac_address p) =
       Inr (\<exists>q \<in> set (db_ports d). mac_address q = mac_address p \<and> bindings q \<noteq> []
                \<and> (\<exists>l. get_port_lli eng (Some q) = Inr l \<and> lli_present l)
                \<and> (\<exists>net. Network_get_object d (network_id q) = Some net
                      \<and> (\<exists>seg \<in> set (segments net).
                            physical_network seg = physnet \<and> network_type seg = ''vlan'')))"
    unfolding is_deleted_port_in_use_def deleted_port_in_use_loop_eq Port_get_objects_by_mac_def
    by auto
  have del: "delete_switch_port eng gw sw switch_port =
       ([Delete_port sw switch_port kw],
        if gw (Delete_port sw switch_port kw) then Inl NetworkingAnsibleMechException
        else Inr ())"
    by (simp add: delete_switch_port_def kw Let_def)
  define in_use where "in_use \<longleftrightarrow>
       (\<exists>q \<in> set (db_ports d). mac_address q = mac_address p \<and> bindings q \<noteq> []
                \<and> (\<exists>l. get_port_lli eng (Some q) = Inr l \<and> lli_present l)
                \<and> (\<exists>net. Network_get_object d (network_id q) = Some net
                      \<and> (\<exists>seg \<in> set (segments net).
                            physical_network seg = physnet \<and> network_type seg = ''vlan'')))"
  have use': "is_deleted_port_in_use eng d physnet (mac_address p) = Inr in_use"
    using use by (simp only: in_use_def)
  have "ensure_port eng gw d p (Some sw) switch_port physnet ctx segid delete =
         (if in_use then ([], Inr None)
          else ([Delete_port sw switch_port kw],
                if gw (Delete_port sw switch_port kw) then Inl NetworkingAnsibleMechException
                else Inr None))"
    unfolding ensure_port_def
    by (simp add: assms(1,2) lli use' del lli_present_def Let_def)
  then have "ensure_port eng gw d p (Some sw) switch_port physnet ctx segid delete =
         (if \<exists>q \<in> set (db_ports d). mac_address q = mac_address p \<and> bindings q \<noteq> []
                \<and> (\<exists>l. get_port_lli eng (Some q) = Inr l \<and> lli_present l)
                \<and> (\<exists>net. Network_get_object d (network_id q) = Some net
                      \<and> (\<exists>seg \<in> set (segments net).
                            physical_network seg = physnet \<and> network_type seg = ''vlan''))
          then ([], Inr None)
          else ([Delete_port sw switch_port kw],
                if gw (Delete_port sw switch_port kw) then Inl NetworkingAnsibleMechException
                else Inr None))"
    by (simp only: in_use_def)
  then show ?thesis using kw by blast
qed

theorem ensure_port_deleted_port_witness:
  "ensure_port example_engine never_fails empty_db (baremetal_port no_profile)
      (Some ''sw2'') (Some ''Eth1/3'') (PyStr ''physnet1'') None (PyInt 100) False
     = ([Delete_port ''sw2'' (Some ''Eth1/3'') [(''stp_edge'', CBool True)]], Inr None)
   \<and> ensure_port example_engine never_fails (example_db [reusing_port] [])
      (baremetal_port no_profile)
      (Some ''sw2'') (Some ''Eth1/3'') (PyStr ''physnet1'') None (PyInt 100) False
     = ([], Inr None)"
proof -
  let ?p = "baremetal_port no_profile"
  have nn: "\<not> is_port_normal example_engine ?p"
    by (simp add: is_port_normal_def example_engine_def baremetal_port_def)
  have g1: "Port_get_object empty_db (port_id ?p) = None"
    by (simp add: Port_get_object_def empty_db_def)
  have g2: "Port_get_object (example_db [reusing_port] []) (port_id ?p) = None"
    by (simp add: Port_get_object_def example_db_def reusing_port_def baremetal_port_def)
  have none: "\<not> (\<exists>q \<in> set (db_ports empty_db). mac_address q = mac_address ?p \<and> bindings q \<noteq> []
                \<and> (\<exists>l. get_port_lli example_engine (Some q) = Inr l \<and> lli_present l)
                \<and> (\<exists>net. Network_get_object empty_db (network_id q) = Some net
                      \<and> (\<exists>seg \<in> set (segments net).
                            physical_network seg = PyStr ''physnet1''
                            \<and> network_type seg = ''vlan'')))"
    by (simp add: empty_db_def)
  have some: "\<exists>q \<in> set (db_ports (example_db [reusing_port] [])).
                mac_address q = mac_address ?p \<and> bindings q \<noteq> []
                \<and> (\<exists>l. get_port_lli example_engine (Some q) = Inr l \<and> lli_present l)
                \<and> (\<exists>net. Network_get_object (example_db [reusing_port] []) (network_id q) = Some net
                      \<and> (\<exists>seg \<in> set (segments net).
                            physical_network seg = PyStr ''physnet1''
                            \<and> network_type seg = ''vlan''))"
    by (simp add: example_db_def reusing_port_def baremetal_port_def get_port_lli_def
          lli_present_def Network_get_object_def example_network_def)
  note t1 = ensure_port_deleted_port [OF example_has_host(2) nn g1, of never_fails
              "Some ''Eth1/3''" "PyStr ''physnet1''" None "PyInt 100" False]
  note t2 = ensure_port_deleted_port [OF example_has_host(2) nn g2, of never_fails
              "Some ''Eth1/3''" "PyStr ''physnet1''" None "PyInt 100" False]
  have a: "ensure_port example_engine never_fails empty_db ?p
      (Some ''sw2'') (Some ''Eth1/3'') (PyStr ''physnet1'') None (PyInt 100) False
     = ([Delete_port ''sw2'' (Some ''Eth1/3'') [(''stp_edge'', CBool True)]], Inr None)"
    using t1 none example_kwargs(2) by (auto simp: never_fails_def)
  have b: "ensure_port example_engine never_fails (example_db [reusing_port] []) ?p
      (Some ''sw2'') (Some ''Eth1/3'') (PyStr ''physnet1'') None (PyInt 100) False
     = ([], Inr None)"
    using t2 some by auto
  show ?thesis using a b by blast
qed

section \<open>Deleting the port of a virtual machine\<close>

lemma filter_raising_total:
  "(\<And>x. x \<in> set xs \<Longrightarrow> f x = Inr (P x)) \<Longrightarrow> filter_raising f xs = Inr (filter P xs)"
  by (induction xs) simp_all

lemma active_port_filter_loop_host:
  "\<not> is_port_direct p \<Longrightarrow>
   active_port_filter_loop eng d p switch_port segid q bs =
     Inr (port_id q \<noteq> port_id p \<and> (\<exists>b \<in> set bs. binding_host b = host_id p))"
  by (induction bs) auto

text \<open>
  For a direct port being deleted the filter raises on every port of the store that has a
  binding: either the deleted port has no PCI address, or \<^verbatim>\<open>get_switch_meta\<close> is called
  on the \<^verbatim>\<open>Port\<close> object.
\<close>

lemma active_port_filter_direct_stored:
  assumes "is_port_direct p" and "is_Port q" and "bindings q \<noteq> []"
  shows "active_port_filter eng d p switch_port segid q = Inl AttributeError"
proof -
  obtain b bs where bs: "bindings q = b # bs"
    using assms(3) by (cases "bindings q") auto
  have meta: "get_switch_meta eng q no = Inl AttributeError" for no
    using assms(2) by (simp add: get_switch_meta_def)
  show ?thesis
    unfolding active_port_filter_def bs
    using assms(1) meta by (simp add: build_sriov_host_id_def split: option.splits)
qed

text \<open>
  C1 (as amended). \<^verbatim>\<open>ensure_port\<close> with \<^verbatim>\<open>delete=True\<close> for a compute port that is
  not a direct port, on a switch of the inventory. The ports that keep the VLAN on the
  trunk are the other compute ports of the same network that have a binding on the host of
  the deleted port. With such a port no device call is made; without one exactly one
  \<^verbatim>\<open>delete_trunk_vlan\<close> call is issued for the switch, the switch port and the
  segmentation id.
\<close>

theorem ensure_port_vm_delete:
  assumes "has_host eng sw" and "is_port_normal eng p" and "\<not> is_port_direct p"
  shows "\<exists>kw. kwargs_of eng sw = Some kw
     \<and> ensure_port eng gw d p (Some sw) switch_port physnet ctx segid True =
         (if \<exists>q \<in> set (db_ports d).
                network_id q = network_id p \<and> device_owner q = COMPUTE_NOVA eng
                \<and> port_id q \<noteq> port_id p
                \<and> (\<exists>b \<in> set (bindings q). binding_host b = host_id p)
          then ([], Inr None)
          else ([Delete_trunk_vlan sw switch_port segid kw],
                if gw (Delete_trunk_vlan sw switch_port segid kw) then Inl RunnerError
                else Inr None))"
proof -
  obtain kw where kw: "kwargs_of eng sw = Some kw"
    using has_host_kwargs [OF assms(1)] by blast
  define K where "K q \<longleftrightarrow> (\<exists>b \<in> set (bindings q). binding_host b = host_id p)"
    for q :: port
  define cands where
    "cands = Port_get_objects_by_network d (network_id p) (COMPUTE_NOVA eng)"
  have keep: "active_port_filter eng d p switch_port segid q
                = Inr (port_id q \<noteq> port_id p \<and> K q)" for q
    unfolding active_port_filter_def K_def
    using assms(3) by (simp add: active_port_filter_loop_host)
  have act: "filter_raising (active_port_filter eng d p switch_port segid) cands
               = Inr (filter (\<lambda>q. port_id q \<noteq> port_id p \<and> K q) cands)"
    by (rule filter_raising_total) (rule keep)
  have empty: "filter (\<lambda>q. port_id q \<noteq> port_id p \<and> K q) cands = [] \<longleftrightarrow>
       \<not> (\<exists>q \<in> set (db_ports d).
                network_id q = network_id p \<and> device_owner q = COMPUTE_NOVA eng
                \<and> port_id q \<noteq> port_id p \<and> K q)"
    by (auto simp: filter_empty_conv cands_def Port_get_objects_by_network_def)
  have "ensure_port eng gw d p (Some sw) switch_port physnet ctx segid True =
         (if filter (\<lambda>q. port_id q \<noteq> port_id p \<and> K q) cands \<noteq> []
          then ([], Inr None)
          else ([Delete_trunk_vlan sw switch_port segid kw],
                if gw (Delete_trunk_vlan sw switch_port segid kw) then Inl RunnerError
                else Inr None))"
    using assms(1,2)
    by (simp add: ensure_port_def cands_def [symmetric] act kw Let_def)
  then have "ensure_port eng gw d p (Some sw) switch_port physnet ctx segid True =
         (if \<exists>q \<in> set (db_ports d).
                network_id q = network_id p \<and> device_owner q = COMPUTE_NOVA eng
                \<and> port_id q \<noteq> port_id p \<and> K q
          then ([], Inr None)
          else ([Delete_trunk_vlan sw switch_port segid kw],
                if gw (Delete_trunk_vlan sw switch_port segid kw) then Inl RunnerError
                else Inr None))"
    by (simp only: empty) simp
  then show ?thesis using kw unfolding K_def by blast
qed

theorem ensure_port_vm_delete_witness:
  "ensure_port example_engine never_fails
      (example_db [stored (vm_port ''p2'' ''compute-1'' ''normal'' no_profile)] [])
      (vm_port ''p1'' ''compute-1'' ''normal'' no_profile)
      (Some ''sw1'') (Some ''Eth1/1'') (PyStr ''physnet1'') None (PyInt 100) True
     = ([], Inr None)
   \<and> ensure_port example_engine never_fails (example_db [] [])
      (vm_port ''p1'' ''compute-1'' ''normal'' no_profile)
      (Some ''sw1'') (Some ''Eth1/1'') (PyStr ''physnet1'') None (PyInt 100) True
     = ([Delete_trunk_vlan ''sw1'' (Some ''Eth1/1'') (PyInt 100)
           [(''trunk_mode'', CStr ''tagged'')]], Inr None)"
proof -
  let ?p = "vm_port ''p1'' ''compute-1'' ''normal'' no_profile"
  let ?q = "stored (vm_port ''p2'' ''compute-1'' ''normal'' no_profile)"
  have nrm: "is_port_normal example_engine ?p"
    by (simp add: is_port_normal_def example_engine_def vm_port_def)
  have dir: "\<not> is_port_direct ?p"
    by (simp add: is_port_direct_def vm_port_def VNIC_DIRECT_def)
  note t1 = ensure_port_vm_delete [OF example_has_host(1) nrm dir,
              where d = "example_db [?q] []" and gw = never_fails
                and switch_port = "Some ''Eth1/1''"
                and physnet = "PyStr ''physnet1''" and ctx = None and segid = "PyInt 100"]
  note t2 = ensure_port_vm_delete [OF example_has_host(1) nrm dir,
              where d = "example_db [] []" and gw = never_fails
                and switch_port = "Some ''Eth1/1''"
                and physnet = "PyStr ''physnet1''" and ctx = None and segid = "PyInt 100"]
  have a: "ensure_port example_engine never_fails (example_db [?q] []) ?p
      (Some ''sw1'') (Some ''Eth1/1'') (PyStr ''physnet1'') None (PyInt 100) True
     = ([], Inr None)"
    using t1
    by (simp add: example_db_def stored_def vm_port_def example_engine_def)
  have b: "ensure_port example_engine never_fails (example_db [] []) ?p
      (Some ''sw1'') (Some ''Eth1/1'') (PyStr ''physnet1'') None (PyInt 100) True
     = ([Delete_trunk_vlan ''sw1'' (Some ''Eth1/1'') (PyInt 100)
           [(''trunk_mode'', CStr ''tagged'')]], Inr None)"
    using t2 example_kwargs(1) by (simp add: example_db_def never_fails_def)
  show ?thesis using a b by blast
qed

text \<open>
  C1 as stated fails where the deleted port is not direct, since the code then compares
  hosts. A port on another host that maps to the same switch port and VLAN does not keep
  the VLAN: the call is issued. A direct port on the same host, which maps to another
  switch port, keeps it: no call is issued.
\<close>

theorem ensure_port_vm_delete_counterexample:
  "filter (spec_shares_location example_engine
             (example_db [stored (vm_port ''p2'' ''compute-2'' ''normal'' no_profile)] [])
             (vm_port ''p1'' ''compute-1'' ''normal'' no_profile) (Some ''Eth1/1'') (PyInt 100))
      (db_ports (example_db [stored (vm_port ''p2'' ''compute-2'' ''normal'' no_profile)] []))
     = [stored (vm_port ''p2'' ''compute-2'' ''normal'' no_profile)]
   \<and> ensure_port example_engine never_fails
        (example_db [stored (vm_port ''p2'' ''compute-2'' ''normal'' no_profile)] [])
        (vm_port ''p1'' ''compute-1'' ''normal'' no_profile)
        (Some ''sw1'') (Some ''Eth1/1'') (PyStr ''physnet1'') None (PyInt 100) True
       = ([Delete_trunk_vlan ''sw1'' (Some ''Eth1/1'') (PyInt 100)
             [(''trunk_mode'', CStr ''tagged'')]], Inr None)
   \<and> filter (spec_shares_location example_engine
             (example_db [stored (vm_port ''p3'' ''compute-1'' ''direct''
                                    (pci_profile ''0000:03:00.0''))] [])
             (vm_port ''p1'' ''compute-1'' ''normal'' no_profile) (Some ''Eth1/1'') (PyInt 100))
      (db_ports (example_db [stored (vm_port ''p3'' ''compute-1'' ''direct''
                                       (pci_profile ''0000:03:00.0''))] []))
     = []
   \<and> ensure_port example_engine never_fails
        (example_db [stored (vm_port ''p3'' ''compute-1'' ''direct''
                               (pci_profile ''0000:03:00.0''))] [])
        (vm_port ''p1'' ''compute-1'' ''normal'' no_profile)
        (Some ''sw1'') (Some ''Eth1/1'') (PyStr ''physnet1'') None (PyInt 100) True
       = ([], Inr None)"
  by (simp add: spec_shares_location_def switch_meta_from_port_host_id_def is_port_direct_def
        build_sriov_host_id_def normalize_pci_def stored_def vm_port_def pci_profile_def
        no_profile_def VNIC_DIRECT_def example_engine_def Network_get_object_def example_db_def
        example_network_def network_segmentation_id_def ensure_port_def has_host_def
        Port_get_object_def is_port_normal_def Port_get_objects_by_network_def
        active_port_filter_def kwargs_of_def startswith_def dict_set_def never_fails_def)

end
